theory Spec2Isabelle
  imports Main "HOL-Library.Sublist"
begin

section \<open>JavaScript strings, numbers and exceptions\<close>

text \<open>
  A JavaScript string is its sequence of UTF-16 code units; \<open>str\<close> turns an ASCII
  literal of the source into one. \<^verbatim>\<open>s.length\<close> is \<open>length s\<close>.
\<close>

type_synonym jstring = "nat list"

definition str :: "string \<Rightarrow> jstring" where
  "str s = map of_char s"

text \<open>Decimal printing of an integer, as \<^verbatim>\<open>String(n)\<close> and a template literal do for an
  integer below \<open>10^21\<close>.\<close>

fun showNat :: "nat \<Rightarrow> jstring" where
  "showNat n = (if n < 10 then [48 + n] else showNat (n div 10) @ [48 + n mod 10])"

declare showNat.simps [simp del]

definition showInt :: "int \<Rightarrow> jstring" where
  "showInt i = (if i < 0 then 45 # showNat (nat (- i)) else showNat (nat i))"

text \<open>
  \<^verbatim>\<open>String.prototype.toLowerCase\<close>, exact on the ASCII letters and on the two other code
  units whose lower case holds an ASCII letter (the Kelvin sign and the dotted capital I).
  Every other unit is kept: the program compares lowered strings with ASCII words only,
  and such a unit is outside ASCII before and after lowering.
\<close>

definition lowerUnit :: "nat \<Rightarrow> jstring" where
  "lowerUnit c =
     (if 65 \<le> c \<and> c \<le> 90 then [c + 32]
      else if c = 8490 then [107]
      else if c = 304 then [105, 775]
      else [c])"

definition toLowerCase :: "jstring \<Rightarrow> jstring" where
  "toLowerCase s = concat (map lowerUnit s)"

text \<open>\<^verbatim>\<open>String.prototype.trim\<close> removes white space and line terminators at both ends.\<close>

definition isWhiteSpace :: "nat \<Rightarrow> bool" where
  "isWhiteSpace c \<longleftrightarrow>
     c \<in> set [9, 10, 11, 12, 13, 32, 160, 5760, 8232, 8233, 8239, 8287, 12288, 65279]
     \<or> (8192 \<le> c \<and> c \<le> 8202)"

definition trim :: "jstring \<Rightarrow> jstring" where
  "trim s = rev (dropWhile isWhiteSpace (rev (dropWhile isWhiteSpace s)))"

text \<open>\<^verbatim>\<open>s.includes(pat)\<close>.\<close>

fun strIncludes :: "jstring \<Rightarrow> jstring \<Rightarrow> bool" where
  "strIncludes [] pat = (pat = [])"
| "strIncludes (c # cs) pat = (prefix pat (c # cs) \<or> strIncludes cs pat)"

text \<open>
  A thrown value: an \<^verbatim>\<open>Error\<close> with its message, and for an axios error the
  \<^verbatim>\<open>code\<close> and \<^verbatim>\<open>response.status\<close> the handlers read. A \<^verbatim>\<open>TypeError\<close> of the
  runtime is an error without code and status.
\<close>

datatype jserr = JsError (errCode: "jstring option") (errStatus: "nat option") (errMessage: jstring)

definition newError :: "jstring \<Rightarrow> jserr" where
  "newError msg = JsError None None msg"

definition typeError :: "jstring \<Rightarrow> jserr" where
  "typeError msg = JsError None None msg"

section \<open>JSON values as the controller APIs deliver them\<close>

text \<open>
  A response body is what \<^verbatim>\<open>JSON.parse\<close> yields: null, a boolean, a number, a string,
  an array or an object. \<^verbatim>\<open>undefined\<close> is not a JSON value: a missing property and
  a missing body are \<open>None\<close>. Objects are association lists in key order
  (\<^verbatim>\<open>JSON.parse\<close> keeps one entry per key). Numbers are the integer-valued ones; the
  functions below only ever compare a number with \<open>1\<close> or print it.
\<close>

datatype json =
    JNull
  | JBool bool
  | JNum int
  | JStr jstring
  | JArr "json list"
  | JObj "(jstring \<times> json) list"

text \<open>Property read \<^verbatim>\<open>v[k]\<close> for the data keys used in this program (none of them
  is inherited from a prototype): only an object has them.\<close>

fun jget :: "json \<Rightarrow> jstring \<Rightarrow> json option" where
  "jget (JObj kvs) k = map_of kvs k"
| "jget _ k = None"

text \<open>Optional chaining \<^verbatim>\<open>v?.k\<close> on a value that may be \<^verbatim>\<open>undefined\<close>.\<close>

fun jgetOpt :: "json option \<Rightarrow> jstring \<Rightarrow> json option" where
  "jgetOpt None k = None"
| "jgetOpt (Some v) k = jget v k"

text \<open>The same read written \<^verbatim>\<open>d.k\<close>: it throws on null.\<close>

definition propOf :: "json \<Rightarrow> jstring \<Rightarrow> jserr + json option" where
  "propOf d k =
     (if d = JNull
      then Inl (typeError (str ''Cannot read properties of null (reading '' @ [39] @ k @ [39] @ str '')''))
      else Inr (jget d k))"

fun isArray :: "json \<Rightarrow> bool" where
  "isArray (JArr xs) = True"
| "isArray _ = False"

text \<open>\<^verbatim>\<open>Array.isArray(v) ? v : []\<close>.\<close>

fun arrayOrEmpty :: "json \<Rightarrow> json list" where
  "arrayOrEmpty (JArr xs) = xs"
| "arrayOrEmpty _ = []"

text \<open>\<^verbatim>\<open>v && typeof v === 'object'\<close>: arrays and objects, not null.\<close>

fun isObjectLike :: "json \<Rightarrow> bool" where
  "isObjectLike (JArr xs) = True"
| "isObjectLike (JObj kvs) = True"
| "isObjectLike _ = False"

fun truthy :: "json option \<Rightarrow> bool" where
  "truthy None = False"
| "truthy (Some JNull) = False"
| "truthy (Some (JBool b)) = b"
| "truthy (Some (JNum n)) = (n \<noteq> 0)"
| "truthy (Some (JStr s)) = (s \<noteq> [])"
| "truthy (Some (JArr xs)) = True"
| "truthy (Some (JObj kvs)) = True"

definition nullish :: "json option \<Rightarrow> bool" where
  "nullish v \<longleftrightarrow> v = None \<or> v = Some JNull"

text \<open>The chain \<^verbatim>\<open>a ?? b ?? ... ?? z\<close>: the first operand that is neither null nor
  undefined, and the last operand when there is none.\<close>

fun coalesce :: "json option list \<Rightarrow> json option" where
  "coalesce [] = None"
| "coalesce [v] = v"
| "coalesce (v # w # ws) = (if nullish v then coalesce (w # ws) else v)"

text \<open>The same chain ending in a literal: \<^verbatim>\<open>a ?? b ?? ... ?? lit\<close>.\<close>

fun coalesceOr :: "json option list \<Rightarrow> json \<Rightarrow> json" where
  "coalesceOr [] lit = lit"
| "coalesceOr (v # vs) lit = (if nullish v then coalesceOr vs lit else (case v of Some x \<Rightarrow> x | None \<Rightarrow> lit))"

text \<open>
  \<^verbatim>\<open>String(v)\<close>, \<^verbatim>\<open>v.toString()\<close> and a template literal on a JSON value. An array
  joins its elements with commas (null prints as nothing). An object prints as
  \<^verbatim>\<open>[object Object]\<close>, unless it has a key \<^verbatim>\<open>toString\<close> of its own: that value is no
  function and the conversion throws a TypeError.
\<close>

fun jsToString :: "json \<Rightarrow> jserr + jstring"
  and jsJoin :: "json list \<Rightarrow> jserr + jstring" where
  "jsToString JNull = Inr (str ''null'')"
| "jsToString (JBool b) = Inr (if b then str ''true'' else str ''false'')"
| "jsToString (JNum n) = Inr (showInt n)"
| "jsToString (JStr s) = Inr s"
| "jsToString (JArr xs) = jsJoin xs"
| "jsToString (JObj kvs) =
     (if map_of kvs (str ''toString'') = None then Inr (str ''[object Object]'')
      else Inl (typeError (str ''Cannot convert object to primitive value'')))"
| "jsJoin [] = Inr []"
| "jsJoin (x # xs) =
     (case (if x = JNull then Inr [] else jsToString x) of
        Inl e \<Rightarrow> Inl e
      | Inr s \<Rightarrow>
          if xs = [] then Inr s
          else (case jsJoin xs of Inl e \<Rightarrow> Inl e | Inr t \<Rightarrow> Inr (s @ 44 # t)))"

text \<open>
  \<^verbatim>\<open>Number(v)\<close>, with \<open>None\<close> for NaN. The conversion of a string to a number is the
  runtime's (\<open>toNum\<close>, a parameter): the program only asks whether the result is \<open>1\<close>.
  The message of a TypeError is the engine's wording, which differs from one failing
  operation to the next; the conversions of this section carry the one of \<^verbatim>\<open>String(v)\<close>.
\<close>

fun jsNumber :: "(jstring \<Rightarrow> int option) \<Rightarrow> json option \<Rightarrow> jserr + int option" where
  "jsNumber toNum None = Inr None"
| "jsNumber toNum (Some JNull) = Inr (Some 0)"
| "jsNumber toNum (Some (JBool b)) = Inr (Some (if b then 1 else 0))"
| "jsNumber toNum (Some (JNum n)) = Inr (Some n)"
| "jsNumber toNum (Some (JStr s)) = Inr (toNum s)"
| "jsNumber toNum (Some (JArr xs)) =
     (case jsJoin xs of Inl e \<Rightarrow> Inl e | Inr s \<Rightarrow> Inr (toNum s))"
| "jsNumber toNum (Some (JObj kvs)) =
     (if map_of kvs (str ''toString'') = None then Inr None
      else Inl (typeError (str ''Cannot convert object to primitive value'')))"

text \<open>\<^verbatim>\<open>xs.filter(p).length\<close> where the callback may throw: elements are visited in
  order and the first exception ends the call.\<close>

fun countM :: "('a \<Rightarrow> jserr + bool) \<Rightarrow> 'a list \<Rightarrow> jserr + nat" where
  "countM p [] = Inr 0"
| "countM p (x # xs) =
     (case p x of
        Inl e \<Rightarrow> Inl e
      | Inr b \<Rightarrow> (case countM p xs of Inl e \<Rightarrow> Inl e | Inr n \<Rightarrow> Inr (if b then Suc n else n)))"

text \<open>\<^verbatim>\<open>xs.some(p)\<close>: stops at the first element the callback accepts.\<close>

fun someM :: "('a \<Rightarrow> jserr + bool) \<Rightarrow> 'a list \<Rightarrow> jserr + bool" where
  "someM p [] = Inr False"
| "someM p (x # xs) =
     (case p x of Inl e \<Rightarrow> Inl e | Inr b \<Rightarrow> if b then Inr True else someM p xs)"

text \<open>\<^verbatim>\<open>xs.map(f)\<close> and \<^verbatim>\<open>xs.forEach(f)\<close> where the callback may throw.\<close>

fun mapM :: "('a \<Rightarrow> jserr + 'b) \<Rightarrow> 'a list \<Rightarrow> jserr + 'b list" where
  "mapM f [] = Inr []"
| "mapM f (x # xs) =
     (case f x of
        Inl e \<Rightarrow> Inl e
      | Inr y \<Rightarrow> (case mapM f xs of Inl e \<Rightarrow> Inl e | Inr ys \<Rightarrow> Inr (y # ys)))"

text \<open>\<^verbatim>\<open>xs.filter(p)\<close> where the callback may throw.\<close>

fun filterM :: "('a \<Rightarrow> jserr + bool) \<Rightarrow> 'a list \<Rightarrow> jserr + 'a list" where
  "filterM p [] = Inr []"
| "filterM p (x # xs) =
     (case p x of
        Inl e \<Rightarrow> Inl e
      | Inr b \<Rightarrow> (case filterM p xs of Inl e \<Rightarrow> Inl e | Inr ys \<Rightarrow> Inr (if b then x # ys else ys)))"

text \<open>
  \<^verbatim>\<open>String(a ?? b ?? '').trim() || String(c ?? d ?? '').trim() || ...\<close> read as a truth
  value: is one of the trimmed texts non-empty? The groups are converted in turn, and a
  later group is not converted once an earlier one is non-empty.
\<close>

fun anyText :: "json option list list \<Rightarrow> jserr + bool" where
  "anyText [] = Inr False"
| "anyText (vs # rest) =
     (case jsToString (coalesceOr vs (JStr [])) of
        Inl e \<Rightarrow> Inl e
      | Inr s \<Rightarrow> if trim s \<noteq> [] then Inr True else anyText rest)"

section \<open>UniFiMonitor.apiRequest: unwrapping the response envelope\<close>

text \<open>
  monitoring.js, the end of the \<^verbatim>\<open>try\<close> block of \<^verbatim>\<open>apiRequest\<close>:
  \<^verbatim>\<open>
      const data = response.data;
      if (data?.data !== undefined) return data.data;
      if (Array.isArray(data)) return data;
      if (data && typeof data === 'object') return [data];
      return [];
  \<close>
\<close>

definition unwrapPayload :: "json option \<Rightarrow> json" where
  "unwrapPayload data =
     (case jgetOpt data (str ''data'') of
        Some x \<Rightarrow> x
      | None \<Rightarrow>
          (case data of
             Some (JArr xs) \<Rightarrow> JArr xs
           | Some (JObj kvs) \<Rightarrow> JArr [JObj kvs]
           | _ \<Rightarrow> JArr []))"

section \<open>Health metrics\<close>

record deviceCounts =
  dev_total :: int
  dev_online :: int
  dev_offline :: int

record clientCounts =
  cl_total :: int
  cl_wireless :: int
  cl_wired :: int

text \<open>
  A health-metrics result: the counts, and the lists of the devices and clients that carry
  an identifier. \<open>m_sites\<close> is the cloud client's \<^verbatim>\<open>sites.total\<close> (\<open>None\<close> for a local
  controller, whose result has no such field). Not in the record: \<^verbatim>\<open>rawDeviceList\<close> and
  \<^verbatim>\<open>sitesList\<close> (the first 250 devices and the first 100 sites as they came),
  \<^verbatim>\<open>system\<close> and \<^verbatim>\<open>timestamp\<close>, which are copied without a computation that could
  fail, and \<^verbatim>\<open>types\<close>, whose keys are computed below.
\<close>

record healthMetrics =
  m_sites :: "int option"
  m_devices :: deviceCounts
  m_clients :: clientCounts
  m_devicesList :: "json list"
  m_clientsList :: "json list"

subsection \<open>Local controller: UniFiMonitor.getHealthMetrics\<close>

text \<open>
  \<^verbatim>\<open>
      const onlineDevices = devices.filter(d => d.state === 1).length;
      const totalDevices = devices.length;
      const activeClients = clients.filter(c => c.is_wired === false).length;
      const wiredClients = clients.filter(c => c.is_wired === true).length;
      const deviceTypes = {};
      devices.forEach(device => {
        const type = device.type || 'unknown';
        deviceTypes[type] = (deviceTypes[type] || 0) + 1;
      });
      const MAX_LIST = 250;
      const isValidClient = (c) => c && typeof c === 'object' &&
        (String(c.mac ?? c.mac_address ?? '').trim() ||
         String(c.ip ?? c.fixed_ip ?? c.network?.ip ?? '').trim() ||
         String(c.hostname ?? c.name ?? '').trim());
      const clientsList = (Array.isArray(clients) ? clients.filter(isValidClient) : []).slice(0, MAX_LIST);
      const isValidDevice = (d) => d && typeof d === 'object' && String(d.mac ?? d.mac_address ?? '').trim();
      const devicesList = (Array.isArray(devices) ? devices.filter(isValidDevice) : []).slice(0, MAX_LIST);
      return {
        devices: { total: totalDevices, online: onlineDevices,
                   offline: totalDevices - onlineDevices, types: deviceTypes },
        devicesList,
        clients: { total: clients.length, wireless: activeClients, wired: wiredClients },
        clientsList,
        system: systemInfo.system || {},
        timestamp: new Date().toISOString(),
      };
    } catch (error) {
      throw new Error(`Failed to get UniFi health metrics: ${error.message}`);
  \<close>
  \<open>devices\<close> and \<open>clients\<close> are the arrays \<^verbatim>\<open>getDevices().catch(() => [])\<close> and
  \<^verbatim>\<open>getClients().catch(() => [])\<close> deliver.
\<close>

definition propIs :: "jstring \<Rightarrow> json \<Rightarrow> json \<Rightarrow> jserr + bool" where
  "propIs k v d = (case propOf d k of Inl e \<Rightarrow> Inl e | Inr w \<Rightarrow> Inr (w = Some v))"

text \<open>
  The key under which a device is tallied in \<^verbatim>\<open>deviceTypes\<close>: \<^verbatim>\<open>device.type || 'unknown'\<close>
  turned into a property key, that is, into a string, which throws on an object with a
  \<^verbatim>\<open>toString\<close> entry of its own. The tally is not in the record (its value under a
  key that \<^verbatim>\<open>Object.prototype\<close> also has is not a number); its keys are computed
  because the conversion can end the call.
\<close>

definition typeKey :: "json \<Rightarrow> jserr + jstring" where
  "typeKey device =
     (case propOf device (str ''type'') of
        Inl e \<Rightarrow> Inl e
      | Inr None \<Rightarrow> Inr (str ''unknown'')
      | Inr (Some t) \<Rightarrow> if truthy (Some t) then jsToString t else Inr (str ''unknown''))"

definition isValidClient :: "json \<Rightarrow> jserr + bool" where
  "isValidClient c =
     (if \<not> isObjectLike c then Inr False
      else anyText [[jget c (str ''mac''), jget c (str ''mac_address'')],
                    [jget c (str ''ip''), jget c (str ''fixed_ip''), jgetOpt (jget c (str ''network'')) (str ''ip'')],
                    [jget c (str ''hostname''), jget c (str ''name'')]])"

definition isValidDevice :: "json \<Rightarrow> jserr + bool" where
  "isValidDevice d =
     (if \<not> isObjectLike d then Inr False
      else anyText [[jget d (str ''mac''), jget d (str ''mac_address'')]])"

definition localCounts :: "json list \<Rightarrow> json list \<Rightarrow> jserr + healthMetrics" where
  "localCounts devices clients =
     (case countM (propIs (str ''state'') (JNum 1)) devices of
        Inl e \<Rightarrow> Inl e
      | Inr onlineDevices \<Rightarrow>
     (case countM (propIs (str ''is_wired'') (JBool False)) clients of
        Inl e \<Rightarrow> Inl e
      | Inr activeClients \<Rightarrow>
     (case countM (propIs (str ''is_wired'') (JBool True)) clients of
        Inl e \<Rightarrow> Inl e
      | Inr wiredClients \<Rightarrow>
     (case mapM typeKey devices of
        Inl e \<Rightarrow> Inl e
      | Inr typeKeys \<Rightarrow>
     (case filterM isValidClient clients of
        Inl e \<Rightarrow> Inl e
      | Inr validClients \<Rightarrow>
     (case filterM isValidDevice devices of
        Inl e \<Rightarrow> Inl e
      | Inr validDevices \<Rightarrow>
          Inr \<lparr> m_sites = None,
                m_devices = \<lparr> dev_total = int (length devices),
                              dev_online = int onlineDevices,
                              dev_offline = int (length devices) - int onlineDevices \<rparr>,
                m_clients = \<lparr> cl_total = int (length clients),
                              cl_wireless = int activeClients,
                              cl_wired = int wiredClients \<rparr>,
                m_devicesList = take 250 validDevices,
                m_clientsList = take 250 validClients \<rparr>))))))"

definition localHealthMetrics :: "json list \<Rightarrow> json list \<Rightarrow> jserr + healthMetrics" where
  "localHealthMetrics devices clients =
     (case localCounts devices clients of
        Inl e \<Rightarrow> Inl (newError (str ''Failed to get UniFi health metrics: '' @ errMessage e))
      | Inr m \<Rightarrow> Inr m)"

subsection \<open>Cloud client: UniFiSiteManagerMonitor\<close>

text \<open>
  \<^verbatim>\<open>
  _deviceIsOnline(d) {
    if (d == null || typeof d !== 'object') return false;
    const s = (d.state ?? d.connectionState ?? d.status ?? d.connection_status ?? '').toString().toLowerCase();
    if (s === 'connected' || s === 'online' || s === '1') return true;
    if (d.connected === true || d.isOnline === true) return true;
    const n = Number(d.state ?? d.status);
    if (n === 1) return true;
    return false;
  }
  \<close>
\<close>

definition deviceIsOnline :: "(jstring \<Rightarrow> int option) \<Rightarrow> json \<Rightarrow> jserr + bool" where
  "deviceIsOnline toNum d =
     (if \<not> isObjectLike d then Inr False
      else
        (case jsToString (coalesceOr [jget d (str ''state''), jget d (str ''connectionState''),
                                       jget d (str ''status''), jget d (str ''connection_status'')]
                                      (JStr [])) of
           Inl e \<Rightarrow> Inl e
         | Inr s0 \<Rightarrow>
             let s = toLowerCase s0 in
             if s = str ''connected'' \<or> s = str ''online'' \<or> s = str ''1'' then Inr True
             else if jget d (str ''connected'') = Some (JBool True)
                     \<or> jget d (str ''isOnline'') = Some (JBool True) then Inr True
             else
               (case jsNumber toNum (coalesce [jget d (str ''state''), jget d (str ''status'')]) of
                  Inl e \<Rightarrow> Inl e
                | Inr n \<Rightarrow> Inr (n = Some 1))))"

text \<open>
  The callback of \<^verbatim>\<open>deviceList.some\<close> in \<^verbatim>\<open>getHealthMetrics\<close>:
  \<^verbatim>\<open>
        const v = d.state ?? d.status ?? d.connectionState ?? d.connected ?? d.isOnline;
        return v !== undefined && v !== null && v !== '';
  \<close>
\<close>

definition hasStatusValue :: "json \<Rightarrow> bool" where
  "hasStatusValue d =
     (let v = coalesce [jget d (str ''state''), jget d (str ''status''),
                        jget d (str ''connectionState''), jget d (str ''connected''),
                        jget d (str ''isOnline'')]
      in v \<noteq> None \<and> v \<noteq> Some JNull \<and> v \<noteq> Some (JStr []))"

definition carriesStatus :: "json \<Rightarrow> jserr + bool" where
  "carriesStatus d =
     (if d = JNull
      then Inl (typeError (str ''Cannot read properties of null (reading '' @ [39] @ str ''state'' @ [39] @ str '')''))
      else Inr (hasStatusValue d))"

text \<open>
  \<^verbatim>\<open>
    let online = deviceList.filter((d) => this._deviceIsOnline(d)).length;
    if (deviceList.length > 0 && online === 0) {
      const anyWithStatus = deviceList.some(...);
      if (!anyWithStatus) { online = deviceList.length; }
    }
  \<close>
\<close>

definition cloudOnline :: "(jstring \<Rightarrow> int option) \<Rightarrow> json list \<Rightarrow> jserr + nat" where
  "cloudOnline toNum deviceList =
     (case countM (deviceIsOnline toNum) deviceList of
        Inl e \<Rightarrow> Inl e
      | Inr online \<Rightarrow>
          if length deviceList > 0 \<and> online = 0
          then (case someM carriesStatus deviceList of
                  Inl e \<Rightarrow> Inl e
                | Inr anyWithStatus \<Rightarrow> Inr (if \<not> anyWithStatus then length deviceList else online))
          else Inr online)"

text \<open>
  \<^verbatim>\<open>
    clientList.filter((c) => c && (c.is_wired === false || c.wired === false ||
      (c.type && String(c.type).toLowerCase().includes('wireless')))).length
  \<close>
\<close>

definition clientIsWireless :: "json \<Rightarrow> jserr + bool" where
  "clientIsWireless c =
     (if \<not> truthy (Some c) then Inr False
      else if jget c (str ''is_wired'') = Some (JBool False) \<or> jget c (str ''wired'') = Some (JBool False)
      then Inr True
      else
        (case jget c (str ''type'') of
           None \<Rightarrow> Inr False
         | Some t \<Rightarrow>
             if truthy (Some t)
             then (case jsToString t of
                     Inl e \<Rightarrow> Inl e
                   | Inr s \<Rightarrow> Inr (strIncludes (toLowerCase s) (str ''wireless'')))
             else Inr False))"

text \<open>
  \<^verbatim>\<open>
    const isValidClient = (c) => c && typeof c === 'object' &&
      (String(c.mac ?? c.mac_address ?? '').trim() ||
       String(c.ip ?? c.fixed_ip ?? c.network?.ip ?? c.ip_address ?? '').trim() ||
       String(c.hostname ?? c.name ?? '').trim());
    const isValidDevice = (d) => d && typeof d === 'object' && (
      String(d.mac ?? d.mac_address ?? '').trim() ||
      String(d.serial ?? d.serial_number ?? '').trim() ||
      String(d.id ?? d.device_id ?? d._id ?? '').trim() ||
      String(d.name ?? d.hostname ?? d.display_name ?? d.device_name ?? d.label ?? '').trim());
  \<close>
\<close>

definition isValidCloudClient :: "json \<Rightarrow> jserr + bool" where
  "isValidCloudClient c =
     (if \<not> isObjectLike c then Inr False
      else anyText [[jget c (str ''mac''), jget c (str ''mac_address'')],
                    [jget c (str ''ip''), jget c (str ''fixed_ip''), jgetOpt (jget c (str ''network'')) (str ''ip''),
                     jget c (str ''ip_address'')],
                    [jget c (str ''hostname''), jget c (str ''name'')]])"

definition isValidCloudDevice :: "json \<Rightarrow> jserr + bool" where
  "isValidCloudDevice d =
     (if \<not> isObjectLike d then Inr False
      else anyText [[jget d (str ''mac''), jget d (str ''mac_address'')],
                    [jget d (str ''serial''), jget d (str ''serial_number'')],
                    [jget d (str ''id''), jget d (str ''device_id''), jget d (str ''_id'')],
                    [jget d (str ''name''), jget d (str ''hostname''), jget d (str ''display_name''),
                     jget d (str ''device_name''), jget d (str ''label'')]])"

text \<open>
  \<^verbatim>\<open>
    const MAX_LIST = 250;
    const clientsList = clientList.filter(isValidClient).slice(0, MAX_LIST);
    const devicesList = deviceList.filter(isValidDevice).slice(0, MAX_LIST);
    return {
      sites: { total: siteList.length },
      sitesList: siteList.slice(0, 100),
      devices: { total: deviceList.length, online, offline: deviceList.length - online },
      devicesList,
      rawDeviceList: deviceList.slice(0, MAX_LIST),
      clients: { total: clientList.length, wireless: wirelessClients, wired: wiredClients },
      clientsList,
      timestamp: new Date().toISOString(),
    };
  \<close>
  with \<^verbatim>\<open>wiredClients = clientList.length - wirelessClients\<close>. The three lists are what
  \<^verbatim>\<open>getSites\<close>, \<^verbatim>\<open>getDevices\<close> and \<^verbatim>\<open>getClients\<close> returned.
\<close>

definition cloudHealthMetrics ::
  "(jstring \<Rightarrow> int option) \<Rightarrow> json list \<Rightarrow> json list \<Rightarrow> json list \<Rightarrow> jserr + healthMetrics" where
  "cloudHealthMetrics toNum siteList deviceList clientList =
     (case cloudOnline toNum deviceList of
        Inl e \<Rightarrow> Inl e
      | Inr online \<Rightarrow>
     (case countM clientIsWireless clientList of
        Inl e \<Rightarrow> Inl e
      | Inr wirelessClients \<Rightarrow>
     (case filterM isValidCloudClient clientList of
        Inl e \<Rightarrow> Inl e
      | Inr validClients \<Rightarrow>
     (case filterM isValidCloudDevice deviceList of
        Inl e \<Rightarrow> Inl e
      | Inr validDevices \<Rightarrow>
          Inr \<lparr> m_sites = Some (int (length siteList)),
                m_devices = \<lparr> dev_total = int (length deviceList),
                              dev_online = int online,
                              dev_offline = int (length deviceList) - int online \<rparr>,
                m_clients = \<lparr> cl_total = int (length clientList),
                              cl_wireless = int wirelessClients,
                              cl_wired = int (length clientList) - int wirelessClients \<rparr>,
                m_devicesList = take 250 validDevices,
                m_clientsList = take 250 validClients \<rparr>))))"

text \<open>
  The status-like fields are the ones \<^verbatim>\<open>_deviceIsOnline\<close> reads. A device lacks them
  all when each is absent or null (and the device itself is not a null entry of the list).
\<close>

definition statusFields :: "jstring list" where
  "statusFields = [str ''state'', str ''connectionState'', str ''status'', str ''connection_status'',
                   str ''connected'', str ''isOnline'']"

definition noStatusFields :: "json \<Rightarrow> bool" where
  "noStatusFields d \<longleftrightarrow> d \<noteq> JNull \<and> list_all (\<lambda>k. nullish (jget d k)) statusFields"

text \<open>
  An explicit offline indicator. The device formatters of the same file recognise one by
  \<^verbatim>\<open>
  rawState === false || rawState === 0 || rawState === '0' ||
    String(rawState).toLowerCase() === 'offline' || String(rawState).toLowerCase() === 'disconnected'
  \<close>
  and \<open>offlineValue\<close> is this test on a boolean, a number and a string. A device shows
  nothing but offline when every status-like field it carries holds such a value, and it
  carries one in the fields that the \<^verbatim>\<open>anyWithStatus\<close> test of \<^verbatim>\<open>getHealthMetrics\<close>
  reads. These two predicates say what the claim means by a device with an explicit
  offline indicator; no function of the program computes them.
\<close>

definition offlineWords :: "jstring list" where
  "offlineWords = [str ''0'', str ''offline'', str ''disconnected'']"

fun offlineValue :: "json \<Rightarrow> bool" where
  "offlineValue (JBool b) = (\<not> b)"
| "offlineValue (JNum n) = (n = 0)"
| "offlineValue (JStr s) = (toLowerCase s \<in> set offlineWords)"
| "offlineValue _ = False"

definition testedFields :: "jstring list" where
  "testedFields = [str ''state'', str ''status'', str ''connectionState'', str ''connected'', str ''isOnline'']"

definition offlineOrAbsent :: "json option \<Rightarrow> bool" where
  "offlineOrAbsent v = (case v of None \<Rightarrow> True | Some x \<Rightarrow> x = JNull \<or> offlineValue x)"

definition offlineOnly :: "json \<Rightarrow> bool" where
  "offlineOnly d \<longleftrightarrow>
     list_all (\<lambda>k. offlineOrAbsent (jget d k)) statusFields \<and>
     list_ex (\<lambda>k. \<not> nullish (jget d k)) testedFields"

section \<open>Typed fetchers of the local-controller client\<close>

text \<open>
  Each fetcher awaits one \<^verbatim>\<open>apiRequest\<close> (two for \<^verbatim>\<open>getSystemInfo\<close>, up to four for
  \<^verbatim>\<open>getIntrusionEvents\<close>) and is modelled on how that call settled: \<open>Inl\<close> the error it
  threw, \<open>Inr\<close> the payload it returned.
  \<^verbatim>\<open>
  async getDevices() {
    try {
      const devices = await this.apiRequest(`/api/s/${this.site}/stat/device`);
      return Array.isArray(devices) ? devices : [];
    } catch (error) {
      throw new Error(`Failed to get UniFi devices: ${error.message}`);
    }
  }
  \<close>
  and the same for \<^verbatim>\<open>getClients\<close> with \<^verbatim>\<open>stat/sta\<close>.
\<close>

definition getDevices :: "jserr + json \<Rightarrow> jserr + json list" where
  "getDevices settled =
     (case settled of
        Inr devices \<Rightarrow> Inr (arrayOrEmpty devices)
      | Inl error \<Rightarrow> Inl (newError (str ''Failed to get UniFi devices: '' @ errMessage error)))"

definition getClients :: "jserr + json \<Rightarrow> jserr + json list" where
  "getClients settled =
     (case settled of
        Inr clients \<Rightarrow> Inr (arrayOrEmpty clients)
      | Inl error \<Rightarrow> Inl (newError (str ''Failed to get UniFi clients: '' @ errMessage error)))"

text \<open>
  \<^verbatim>\<open>
  async getSystemInfo() {
    try {
      const [system, sites] = await Promise.all([
        this.apiRequest('/api/self').catch(() => ({})),
        this.apiRequest('/api/sites').catch(() => []),
      ]);
      return {
        system: Array.isArray(system) ? (system[0] || {}) : (system || {}),
        sites: Array.isArray(sites) ? sites : (sites || []),
      };
    } catch (error) {
      throw new Error(`Failed to get UniFi system info: ${error.message}`);
    }
  }
  \<close>
  Both requests carry their own \<^verbatim>\<open>.catch\<close>, so nothing inside the \<^verbatim>\<open>try\<close> block throws.
\<close>

record systemInfo =
  si_system :: json
  si_sites :: json

text \<open>\<^verbatim>\<open>v || dflt\<close> on a JSON value.\<close>

definition jsOr :: "json option \<Rightarrow> json \<Rightarrow> json" where
  "jsOr v dflt = (case v of None \<Rightarrow> dflt | Some x \<Rightarrow> if truthy (Some x) then x else dflt)"

fun firstElement :: "json list \<Rightarrow> json option" where
  "firstElement [] = None"
| "firstElement (x # xs) = Some x"

definition getSystemInfo :: "jserr + json \<Rightarrow> jserr + json \<Rightarrow> jserr + systemInfo" where
  "getSystemInfo settledSelf settledSites =
     (let system = (case settledSelf of Inr v \<Rightarrow> v | Inl e \<Rightarrow> JObj []);
          sites = (case settledSites of Inr v \<Rightarrow> v | Inl e \<Rightarrow> JArr [])
      in Inr \<lparr> si_system = (case system of
                               JArr xs \<Rightarrow> jsOr (firstElement xs) (JObj [])
                             | v \<Rightarrow> jsOr (Some v) (JObj [])),
                si_sites = (case sites of JArr xs \<Rightarrow> JArr xs | v \<Rightarrow> jsOr (Some v) (JArr [])) \<rparr>)"

text \<open>
  \<^verbatim>\<open>
  async getHealthMetrics() {
    try {
      const [devices, clients, systemInfo] = await Promise.all([
        this.getDevices().catch(() => []),
        this.getClients().catch(() => []),
        this.getSystemInfo().catch(() => ({})),
      ]);
      ... (the counts and lists: localHealthMetrics above)
  \<close>
  The four arguments are how the requests for devices, clients, \<^verbatim>\<open>/api/self\<close> and
  \<^verbatim>\<open>/api/sites\<close> settled; the system information enters only the \<^verbatim>\<open>system\<close> field, which
  the model of the result leaves out.
\<close>

definition orEmptyList :: "jserr + json list \<Rightarrow> json list" where
  "orEmptyList settled = (case settled of Inr xs \<Rightarrow> xs | Inl e \<Rightarrow> [])"

definition getHealthMetrics ::
  "jserr + json \<Rightarrow> jserr + json \<Rightarrow> jserr + json \<Rightarrow> jserr + json \<Rightarrow> jserr + healthMetrics" where
  "getHealthMetrics settledDevices settledClients settledSelf settledSites =
     localHealthMetrics (orEmptyList (getDevices settledDevices)) (orEmptyList (getClients settledClients))"

text \<open>
  \<^verbatim>\<open>
  async testConnection() {
    try {
      const systemInfo = await this.getSystemInfo();
      return { success: true,
               message: `Connected to UniFi controller. Found ${systemInfo.sites?.length || 0} site(s).`,
               system: systemInfo.system?.name || 'Unknown' };
    } catch (error) {
      return { success: false, message: error.message };
    }
  }
  \<close>
\<close>

record connectionTest =
  ct_success :: bool
  ct_message :: jstring

fun lengthOr0 :: "json \<Rightarrow> nat" where
  "lengthOr0 (JArr xs) = length xs"
| "lengthOr0 (JStr s) = length s"
| "lengthOr0 _ = 0"

definition testConnection :: "jserr + json \<Rightarrow> jserr + json \<Rightarrow> connectionTest" where
  "testConnection settledSelf settledSites =
     (case getSystemInfo settledSelf settledSites of
        Inr systemInfo \<Rightarrow>
          \<lparr> ct_success = True,
            ct_message = str ''Connected to UniFi controller. Found '' @ showNat (lengthOr0 (si_sites systemInfo))
                         @ str '' site(s).'' \<rparr>
      | Inl error \<Rightarrow> \<lparr> ct_success = False, ct_message = errMessage error \<rparr>)"

text \<open>
  The supplementary fetchers \<^verbatim>\<open>getNetworks\<close>, \<^verbatim>\<open>getWlans\<close>, \<^verbatim>\<open>getPortProfiles\<close>,
  \<^verbatim>\<open>getPortForwards\<close> and \<^verbatim>\<open>getRouting\<close> share one body:
  \<^verbatim>\<open>
    try {
      const raw = await this.apiRequest(`/api/s/${this.site}/rest/networkconf`);
      return Array.isArray(raw) ? raw : [];
    } catch (error) { return []; }
  \<close>
\<close>

definition listFetcher :: "jserr + json \<Rightarrow> json list" where
  "listFetcher settled = (case settled of Inr raw \<Rightarrow> arrayOrEmpty raw | Inl error \<Rightarrow> [])"

definition getNetworks :: "jserr + json \<Rightarrow> json list" where
  "getNetworks = listFetcher"

definition getWlans :: "jserr + json \<Rightarrow> json list" where
  "getWlans = listFetcher"

definition getPortProfiles :: "jserr + json \<Rightarrow> json list" where
  "getPortProfiles = listFetcher"

definition getPortForwards :: "jserr + json \<Rightarrow> json list" where
  "getPortForwards = listFetcher"

definition getRouting :: "jserr + json \<Rightarrow> json list" where
  "getRouting = listFetcher"

text \<open>\<^verbatim>\<open>getAlarms(limit = 30)\<close>: the same, then \<^verbatim>\<open>list.slice(0, limit)\<close>.\<close>

definition getAlarms :: "nat \<Rightarrow> jserr + json \<Rightarrow> json list" where
  "getAlarms limit settled = (case settled of Inr raw \<Rightarrow> take limit (arrayOrEmpty raw) | Inl error \<Rightarrow> [])"

text \<open>
  \<^verbatim>\<open>
  async getSiteHealth() {
    try {
      const raw = await this.apiRequest(`/api/s/${this.site}/stat/health`);
      const arr = Array.isArray(raw) ? raw : (raw ? [raw] : []);
      return arr[0] || {};
    } catch (error) { return {}; }
  }
  \<close>
\<close>

definition getSiteHealth :: "jserr + json \<Rightarrow> json" where
  "getSiteHealth settled =
     (case settled of
        Inr raw \<Rightarrow>
          jsOr (firstElement (case raw of JArr xs \<Rightarrow> xs | v \<Rightarrow> if truthy (Some v) then [v] else [])) (JObj [])
      | Inl error \<Rightarrow> JObj [])"

text \<open>
  \<^verbatim>\<open>getIntrusionEvents(limit = 50)\<close> tries four endpoints in turn and returns the first
  non-empty list; a failed request moves on to the next endpoint.
  \<^verbatim>\<open>
    const normalize = (raw) => {
      if (!raw) return [];
      if (Array.isArray(raw)) return raw;
      if (typeof raw !== 'object') return [];
      if (Array.isArray(raw.data)) return raw.data;
      if (Array.isArray(raw.events)) return raw.events;
      if (Array.isArray(raw.by_source)) return raw.by_source;
      return [];
    };
    for (const endpoint of endpoints) {
      try {
        const raw = await this.apiRequest(endpoint);
        const list = normalize(raw);
        if (list.length > 0) return list.slice(0, limit);
      } catch (_) { continue; }
    }
    return [];
  \<close>
\<close>

definition arrayField :: "json \<Rightarrow> jstring \<Rightarrow> json list option" where
  "arrayField raw k = (case jget raw k of Some (JArr xs) \<Rightarrow> Some xs | _ \<Rightarrow> None)"

definition normalizeEvents :: "json \<Rightarrow> json list" where
  "normalizeEvents raw =
     (case raw of
        JArr xs \<Rightarrow> xs
      | JObj kvs \<Rightarrow>
          (case arrayField raw (str ''data'') of
             Some xs \<Rightarrow> xs
           | None \<Rightarrow>
               (case arrayField raw (str ''events'') of
                  Some xs \<Rightarrow> xs
                | None \<Rightarrow> (case arrayField raw (str ''by_source'') of Some xs \<Rightarrow> xs | None \<Rightarrow> [])))
      | _ \<Rightarrow> [])"

fun getIntrusionEvents :: "nat \<Rightarrow> (jserr + json) list \<Rightarrow> json list" where
  "getIntrusionEvents limit [] = []"
| "getIntrusionEvents limit (settled # rest) =
     (case settled of
        Inr raw \<Rightarrow>
          if length (normalizeEvents raw) > 0 then take limit (normalizeEvents raw)
          else getIntrusionEvents limit rest
      | Inl error \<Rightarrow> getIntrusionEvents limit rest)"

section \<open>The aggregator: getMonitoringData\<close>

text \<open>
  One entry of \<^verbatim>\<open>data.unifi.controllers\<close>. The per-category lists (event log, networks,
  WLANs, alarms, ...) are left out: each is the result of its own fetcher behind a
  \<^verbatim>\<open>.catch\<close> and does not decide \<^verbatim>\<open>success\<close>.
  \<^verbatim>\<open>
        try {
          const mon = new UniFiMonitor(cfg);
          const [metrics, ...] = await Promise.all([mon.getHealthMetrics(), ...]);
          return { id: cfg.id, name: cfg.name || cfg.baseUrl, success: true, metrics, ... };
        } catch (err) {
          return { id: cfg.id, name: cfg.name || cfg.baseUrl, success: false, error: err.message, ... };
        }
  \<close>
\<close>

record controllerResult =
  cr_name :: jstring
  cr_success :: bool
  cr_metrics :: "healthMetrics option"
  cr_error :: "jstring option"

definition aggregateController :: "jstring \<Rightarrow> jserr + healthMetrics \<Rightarrow> controllerResult" where
  "aggregateController name outcome =
     (case outcome of
        Inr metrics \<Rightarrow> \<lparr> cr_name = name, cr_success = True, cr_metrics = Some metrics, cr_error = None \<rparr>
      | Inl err \<Rightarrow> \<lparr> cr_name = name, cr_success = False, cr_metrics = None, cr_error = Some (errMessage err) \<rparr>)"

text \<open>
  \<^verbatim>\<open>
    const ok = results.filter((c) => c.success);
    if (ok.length > 0) {
      data.unifi.summary = {
        controllers: { total: enabledUnifi.length, online: ok.length, offline: enabledUnifi.length - ok.length },
        devices: { total: ok.reduce((s, c) => s + (c.metrics?.devices?.total || 0), 0),
                   online: ok.reduce((s, c) => s + (c.metrics?.devices?.online || 0), 0) },
        clients: { total: ..., wireless: ..., wired: ... },
      };
      data.unifi.summary.devices.offline = data.unifi.summary.devices.total - data.unifi.summary.devices.online;
    }
  \<close>
\<close>

record fleetSummary =
  s_controllers_total :: int
  s_controllers_online :: int
  s_controllers_offline :: int
  s_devices :: deviceCounts
  s_clients :: clientCounts

text \<open>\<^verbatim>\<open>c.metrics?.devices?.total || 0\<close> and its siblings.\<close>

definition metricOr0 :: "(healthMetrics \<Rightarrow> int) \<Rightarrow> controllerResult \<Rightarrow> int" where
  "metricOr0 f c = (case cr_metrics c of None \<Rightarrow> 0 | Some m \<Rightarrow> f m)"

definition summarize :: "controllerResult list \<Rightarrow> fleetSummary option" where
  "summarize results =
     (let ok = filter cr_success results in
      if length ok > 0 then
        (let total = sum_list (map (metricOr0 (\<lambda>m. dev_total (m_devices m))) ok);
             online = sum_list (map (metricOr0 (\<lambda>m. dev_online (m_devices m))) ok)
         in Some \<lparr> s_controllers_total = int (length results),
                     s_controllers_online = int (length ok),
                     s_controllers_offline = int (length results) - int (length ok),
                     s_devices = \<lparr> dev_total = total, dev_online = online, dev_offline = total - online \<rparr>,
                     s_clients = \<lparr> cl_total = sum_list (map (metricOr0 (\<lambda>m. cl_total (m_clients m))) ok),
                                   cl_wireless = sum_list (map (metricOr0 (\<lambda>m. cl_wireless (m_clients m))) ok),
                                   cl_wired = sum_list (map (metricOr0 (\<lambda>m. cl_wired (m_clients m))) ok) \<rparr> \<rparr>)
      else None)"

section \<open>The local-controller client: UniFiMonitor\<close>

subsection \<open>Client state and base URL\<close>

record controllerConfig =
  cfg_name :: "jstring option"
  cfg_baseUrl :: "jstring option"
  cfg_apiKey :: "jstring option"
  cfg_site :: "jstring option"
  cfg_verifySSL :: "bool option"

record monitor =
  baseUrl :: jstring
  apiKey :: jstring
  site :: jstring
  verifySSL :: bool
  cookie :: "jstring option"
  csrfToken :: "jstring option"
  apiPrefix :: "jstring option"
  useSessionAuth :: "bool option"

text \<open>\<^verbatim>\<open>v || dflt\<close> on a string that may be missing, and the truth value of such a string.\<close>

fun orElse :: "jstring option \<Rightarrow> jstring \<Rightarrow> jstring" where
  "orElse None dflt = dflt"
| "orElse (Some s) dflt = (if s = [] then dflt else s)"

fun present :: "jstring option \<Rightarrow> bool" where
  "present None = False"
| "present (Some s) = (s \<noteq> [])"

text \<open>A template literal prints a missing string as \<^verbatim>\<open>null\<close>.\<close>

fun shown :: "jstring option \<Rightarrow> jstring" where
  "shown None = str ''null''"
| "shown (Some s) = s"

text \<open>\<^verbatim>\<open>s.replace(/\/$/, '')\<close>.\<close>

definition stripSlash :: "jstring \<Rightarrow> jstring" where
  "stripSlash s = (if s \<noteq> [] \<and> last s = 47 then butlast s else s)"

text \<open>
  \<^verbatim>\<open>
  constructor(config) {
    this.baseUrl = (config.baseUrl || '').replace(/\/$/, '');
    this.apiKey = config.apiKey || '';
    this.site = config.site || 'default';
    this.verifySSL = config.verifySSL !== false;
    this.cookie = null; this.csrfToken = null; this.apiPrefix = null; this.useSessionAuth = null;
  }
  \<close>
\<close>

definition newMonitor :: "controllerConfig \<Rightarrow> monitor" where
  "newMonitor config =
     \<lparr> baseUrl = stripSlash (orElse (cfg_baseUrl config) []),
       apiKey = orElse (cfg_apiKey config) [],
       site = orElse (cfg_site config) (str ''default''),
       verifySSL = (cfg_verifySSL config \<noteq> Some False),
       cookie = None, csrfToken = None, apiPrefix = None, useSessionAuth = None \<rparr>"

text \<open>
  \<^verbatim>\<open>s.replace(/PAT.*$/i, '')\<close> for a lower-case ASCII pattern: the text is cut at the first
  place where the pattern stands (in either case) and no line terminator follows it up to
  the end of the string.
\<close>

definition isLineTerminator :: "nat \<Rightarrow> bool" where
  "isLineTerminator c \<longleftrightarrow> c \<in> set [10, 13, 8232, 8233]"

definition sameLetter :: "nat \<Rightarrow> nat \<Rightarrow> bool" where
  "sameLetter p c \<longleftrightarrow> c = p \<or> (97 \<le> p \<and> p \<le> 122 \<and> c + 32 = p)"

definition startsWithCI :: "jstring \<Rightarrow> jstring \<Rightarrow> bool" where
  "startsWithCI pat s \<longleftrightarrow> length pat \<le> length s \<and> list_all2 sameLetter pat (take (length pat) s)"

fun cutFromCI :: "jstring \<Rightarrow> jstring \<Rightarrow> jstring" where
  "cutFromCI pat [] = []"
| "cutFromCI pat (c # cs) =
     (if startsWithCI pat (c # cs) \<and> list_all (\<lambda>x. \<not> isLineTerminator x) (drop (length pat) (c # cs))
      then []
      else c # cutFromCI pat cs)"

text \<open>
  \<^verbatim>\<open>
  getCleanBaseUrl() {
    return this.baseUrl
      .replace(/\/unifi-api\/network.*$/i, '')
      .replace(/\/proxy\/network.*$/i, '')
      .replace(/\/$/, '');
  }
  \<close>
\<close>

definition getCleanBaseUrl :: "monitor \<Rightarrow> jstring" where
  "getCleanBaseUrl m =
     stripSlash (cutFromCI (str ''/proxy/network'') (cutFromCI (str ''/unifi-api/network'') (baseUrl m)))"

text \<open>
  \<^verbatim>\<open>
  detectApiPrefix() {
    if (this.baseUrl.includes('/unifi-api/network')) { this.apiPrefix = '/unifi-api/network'; return; }
    if (this.baseUrl.includes('/proxy/network')) { this.apiPrefix = '/proxy/network'; return; }
    this.apiPrefix = this.baseUrl.includes('unifi-api') ? '/unifi-api/network' : '/proxy/network';
  }
  \<close>
\<close>

definition detectApiPrefix :: "monitor \<Rightarrow> monitor" where
  "detectApiPrefix m =
     m\<lparr> apiPrefix :=
          Some (if strIncludes (baseUrl m) (str ''/unifi-api/network'') then str ''/unifi-api/network''
                else if strIncludes (baseUrl m) (str ''/proxy/network'') then str ''/proxy/network''
                else if strIncludes (baseUrl m) (str ''unifi-api'') then str ''/unifi-api/network''
                else str ''/proxy/network'') \<rparr>"

text \<open>\<^verbatim>\<open>getApiBaseUrl\<close>: \<^verbatim>\<open>if (!this.apiPrefix) this.detectApiPrefix();\<close> and then
  \<^verbatim>\<open>`${base}${this.apiPrefix}`\<close>.\<close>

definition ensurePrefix :: "monitor \<Rightarrow> monitor" where
  "ensurePrefix m = (if present (apiPrefix m) then m else detectApiPrefix m)"

definition getApiBaseUrl :: "monitor \<Rightarrow> jstring" where
  "getApiBaseUrl m = getCleanBaseUrl m @ shown (apiPrefix (ensurePrefix m))"

subsection \<open>HTTP through axios\<close>

text \<open>
  A request as the controller sees it: the login POST with its credentials, or a GET with
  the headers the client adds (\<^verbatim>\<open>Content-Type\<close>, the timeout and the TLS agent of
  \<^verbatim>\<open>getRequestOptions\<close> are the same in every request and left out). A header whose
  value is \<^verbatim>\<open>null\<close> is \<open>None\<close>.
\<close>

datatype request =
    HttpPost jstring jstring jstring
  | HttpGet jstring "(jstring \<times> jstring option) list"

record response =
  r_status :: nat
  r_setCookie :: "jstring list option"
  r_csrf :: "jstring option"
  r_data :: "json option"

text \<open>What comes back: a network failure with its code and message, or a response.\<close>

datatype reply = NetworkError jstring jstring | Reply response

text \<open>The controller and the network: the reply to the \<open>n\<close>-th request of a client.\<close>

type_synonym controller = "nat \<Rightarrow> request \<Rightarrow> reply"

record session =
  mon :: monitor
  sent :: "request list"

text \<open>
  \<^verbatim>\<open>getRequestOptions\<close> sets \<^verbatim>\<open>validateStatus: (status) => status < 500\<close>: axios resolves
  the promise for every status below 500 and rejects it otherwise, with an error that
  carries \<^verbatim>\<open>response.status\<close>. A network failure rejects with an error that carries its
  \<^verbatim>\<open>code\<close> and no response.
\<close>

definition axios :: "controller \<Rightarrow> request \<Rightarrow> session \<Rightarrow> session \<times> (jserr + response)" where
  "axios srv req w =
     (w\<lparr> sent := sent w @ [req] \<rparr>,
      case srv (length (sent w)) req of
        NetworkError code msg \<Rightarrow> Inl (JsError (Some code) None msg)
      | Reply r \<Rightarrow>
          if r_status r < 500 then Inr r
          else Inl (JsError (Some (str ''ERR_BAD_RESPONSE'')) (Some (r_status r))
                      (str ''Request failed with status code '' @ showNat (r_status r))))"

subsection \<open>authenticate and the prefix probe\<close>

text \<open>
  \<^verbatim>\<open>
  async detectApiPrefixByProbing() {
    const base = this.getCleanBaseUrl();
    const headers = { Cookie: this.cookie, 'X-CSRF-Token': this.csrfToken };
    for (const prefix of ['/unifi-api/network', '/proxy/network']) {
      try {
        const res = await axios.get(`${base}${prefix}/api/self`, this.getRequestOptions(headers));
        if (res.status === 200 && (res.data?.meta?.rc === 'ok' || res.data?.data != null)) {
          this.apiPrefix = prefix;
          return;
        }
      } catch { /* continue */ }
    }
    this.detectApiPrefix();
  }
  \<close>
\<close>

definition probeAccepted :: "response \<Rightarrow> bool" where
  "probeAccepted res \<longleftrightarrow>
     r_status res = 200 \<and>
     (jgetOpt (jgetOpt (r_data res) (str ''meta'')) (str ''rc'') = Some (JStr (str ''ok''))
      \<or> \<not> nullish (jgetOpt (r_data res) (str ''data'')))"

fun probePrefixes :: "controller \<Rightarrow> jstring list \<Rightarrow> session \<Rightarrow> session" where
  "probePrefixes srv [] w = w\<lparr> mon := detectApiPrefix (mon w) \<rparr>"
| "probePrefixes srv (p # ps) w =
     (case axios srv (HttpGet (getCleanBaseUrl (mon w) @ p @ str ''/api/self'')
                        [(str ''Cookie'', cookie (mon w)), (str ''X-CSRF-Token'', csrfToken (mon w))]) w of
        (w1, Inr res) \<Rightarrow>
          if probeAccepted res then w1\<lparr> mon := (mon w1)\<lparr> apiPrefix := Some p \<rparr> \<rparr>
          else probePrefixes srv ps w1
      | (w1, Inl err) \<Rightarrow> probePrefixes srv ps w1)"

definition detectApiPrefixByProbing :: "controller \<Rightarrow> session \<Rightarrow> session" where
  "detectApiPrefixByProbing srv w = probePrefixes srv [str ''/unifi-api/network'', str ''/proxy/network''] w"

text \<open>
  \<^verbatim>\<open>
  async authenticate() {
    if (!this.baseUrl || !this.apiKey) throw new Error('UniFi API key not configured');
    const base = this.getCleanBaseUrl();
    try {
      const response = await axios.post(`${base}/api/auth/login`,
        { username: 'api', password: this.apiKey }, this.getRequestOptions());
      if (response.status !== 200) throw new Error('UniFi API key authentication failed');
      const setCookie = response.headers['set-cookie'];
      if (setCookie) {
        const cookies = Array.isArray(setCookie) ? setCookie : [setCookie];
        this.cookie = cookies.map((c) => c.split(';')[0]).join('; ');
      }
      this.csrfToken = response.headers['x-csrf-token'] || null;
      try { await this.detectApiPrefixByProbing(); } catch { this.detectApiPrefix(); }
      this.useSessionAuth = true;
      return true;
    } catch (err) {
      if (err.code === 'ECONNREFUSED') throw new Error(`Cannot connect to UniFi controller at ${base}`);
      if (err.response?.status === 401 || err.response?.status === 403)
        throw new Error('UniFi API key is invalid or expired. Check ...');
      throw new Error(`UniFi authentication error: ${err.message}`);
    }
  }
  \<close>
  The probe never throws, so its own \<^verbatim>\<open>catch\<close> has nothing to do.
\<close>

fun joinWith :: "jstring \<Rightarrow> jstring list \<Rightarrow> jstring" where
  "joinWith sep [] = []"
| "joinWith sep [s] = s"
| "joinWith sep (s # t # ts) = s @ sep @ joinWith sep (t # ts)"

definition cookieOf :: "jstring list \<Rightarrow> jstring" where
  "cookieOf cookies = joinWith (str ''; '') (map (takeWhile (\<lambda>c. c \<noteq> 59)) cookies)"

definition authFailure :: "jstring \<Rightarrow> jserr \<Rightarrow> jserr" where
  "authFailure base err =
     (if errCode err = Some (str ''ECONNREFUSED'')
      then newError (str ''Cannot connect to UniFi controller at '' @ base)
      else if errStatus err = Some 401 \<or> errStatus err = Some 403
      then newError (str ''UniFi API key is invalid or expired. Check Network > Control Plane > Integrations (or Controller Settings ''
                      @ [8594] @ str '' API Access).'')
      else newError (str ''UniFi authentication error: '' @ errMessage err))"

definition authenticate :: "controller \<Rightarrow> session \<Rightarrow> session \<times> (jserr + unit)" where
  "authenticate srv w =
     (if baseUrl (mon w) = [] \<or> apiKey (mon w) = []
      then (w, Inl (newError (str ''UniFi API key not configured'')))
      else
        (let base = getCleanBaseUrl (mon w) in
         case axios srv (HttpPost (base @ str ''/api/auth/login'') (str ''api'') (apiKey (mon w))) w of
           (w1, Inl err) \<Rightarrow> (w1, Inl (authFailure base err))
         | (w1, Inr res) \<Rightarrow>
             if r_status res \<noteq> 200
             then (w1, Inl (authFailure base (newError (str ''UniFi API key authentication failed''))))
             else
               (let m1 = (case r_setCookie res of
                            None \<Rightarrow> mon w1
                          | Some cookies \<Rightarrow> (mon w1)\<lparr> cookie := Some (cookieOf cookies) \<rparr>);
                    m2 = m1\<lparr> csrfToken := (if present (r_csrf res) then r_csrf res else None) \<rparr>;
                    w2 = detectApiPrefixByProbing srv (w1\<lparr> mon := m2 \<rparr>)
                in (w2\<lparr> mon := (mon w2)\<lparr> useSessionAuth := Some True \<rparr> \<rparr>, Inr ()))))"

subsection \<open>apiRequest\<close>

text \<open>
  \<^verbatim>\<open>
    if (!endpoint.startsWith('/api/')) {
      endpoint = endpoint.startsWith('/') ? `/api${endpoint}` : `/api/${endpoint}`;
    }
    const doRequest = (useSession) => {
      const base = this.getApiBaseUrl();
      const url = `${base}${endpoint}`;
      const headers = {};
      if (this.apiKey) headers['X-API-Key'] = this.apiKey;
      if (useSession && this.cookie) {
        headers['Cookie'] = this.cookie;
        if (this.csrfToken) headers['X-CSRF-Token'] = this.csrfToken;
      }
      return axios.get(url, this.getRequestOptions(headers));
    };
  \<close>
\<close>

definition normalizeEndpoint :: "jstring \<Rightarrow> jstring" where
  "normalizeEndpoint endpoint =
     (if prefix (str ''/api/'') endpoint then endpoint
      else if prefix (str ''/'') endpoint then str ''/api'' @ endpoint
      else str ''/api/'' @ endpoint)"

definition requestHeaders :: "monitor \<Rightarrow> bool \<Rightarrow> (jstring \<times> jstring option) list" where
  "requestHeaders m useSession =
     (if apiKey m \<noteq> [] then [(str ''X-API-Key'', Some (apiKey m))] else []) @
     (if useSession \<and> present (cookie m)
      then (str ''Cookie'', cookie m) #
           (if present (csrfToken m) then [(str ''X-CSRF-Token'', csrfToken m)] else [])
      else [])"

definition doRequest :: "controller \<Rightarrow> jstring \<Rightarrow> bool \<Rightarrow> session \<Rightarrow> session \<times> (jserr + response)" where
  "doRequest srv endpoint useSession w =
     (let m = ensurePrefix (mon w) in
      axios srv (HttpGet (getApiBaseUrl m @ endpoint) (requestHeaders m useSession)) (w\<lparr> mon := m \<rparr>))"

definition unauthorized :: "response \<Rightarrow> bool" where
  "unauthorized res \<longleftrightarrow> r_status res = 401 \<or> r_status res = 403"

text \<open>
  The first part of the \<^verbatim>\<open>try\<close> block: the request with the key alone and the upgrade to
  session authentication, or the request with the session when the client has already
  chosen it.
  \<^verbatim>\<open>
      let response = null;
      if (this.useSessionAuth !== true) {
        response = await doRequest(false);
        if (response.status === 401 || response.status === 403) {
          this.useSessionAuth = true;
          await this.authenticate();
          response = await doRequest(true);
        }
      } else {
        if (!this.cookie) await this.authenticate();
        response = await doRequest(true);
      }
  \<close>
\<close>

definition firstAttempt :: "controller \<Rightarrow> jstring \<Rightarrow> session \<Rightarrow> session \<times> (jserr + response)" where
  "firstAttempt srv endpoint w =
     (if useSessionAuth (mon w) \<noteq> Some True
      then
        (case doRequest srv endpoint False w of
           (w1, Inl err) \<Rightarrow> (w1, Inl err)
         | (w1, Inr res) \<Rightarrow>
             if unauthorized res
             then (case authenticate srv (w1\<lparr> mon := (mon w1)\<lparr> useSessionAuth := Some True \<rparr> \<rparr>) of
                     (w2, Inl err) \<Rightarrow> (w2, Inl err)
                   | (w2, Inr u) \<Rightarrow> doRequest srv endpoint True w2)
             else (w1, Inr res))
      else
        (if \<not> present (cookie (mon w))
         then (case authenticate srv w of
                 (w1, Inl err) \<Rightarrow> (w1, Inl err)
               | (w1, Inr u) \<Rightarrow> doRequest srv endpoint True w1)
         else doRequest srv endpoint True w))"

text \<open>
  The \<^verbatim>\<open>catch\<close> clause: either the error to throw, or the session with the other prefix
  from which the request is made again.
  \<^verbatim>\<open>
    } catch (err) {
      if (err.code === 'ECONNREFUSED') throw new Error(`Cannot connect to UniFi controller at ${this.baseUrl}`);
      if (err.response?.status === 401 || err.response?.status === 403)
        throw new Error('UniFi API key authentication failed. Check your API key.');
      if (err.response?.status === 404 && this.apiPrefix) {
        const other = this.apiPrefix === '/proxy/network' ? '/unifi-api/network' : '/proxy/network';
        this.apiPrefix = other;
        return this.apiRequest(endpoint);
      }
      throw err;
    }
  \<close>
\<close>

definition otherPrefix :: "jstring option \<Rightarrow> jstring" where
  "otherPrefix p = (if p = Some (str ''/proxy/network'') then str ''/unifi-api/network'' else str ''/proxy/network'')"

definition catchClause :: "session \<Rightarrow> jserr \<Rightarrow> jserr + session" where
  "catchClause w err =
     (if errCode err = Some (str ''ECONNREFUSED'')
      then Inl (newError (str ''Cannot connect to UniFi controller at '' @ baseUrl (mon w)))
      else if errStatus err = Some 401 \<or> errStatus err = Some 403
      then Inl (newError (str ''UniFi API key authentication failed. Check your API key.''))
      else if errStatus err = Some 404 \<and> present (apiPrefix (mon w))
      then Inr (w\<lparr> mon := (mon w)\<lparr> apiPrefix := Some (otherPrefix (apiPrefix (mon w))) \<rparr> \<rparr>)
      else Inl err)"

text \<open>How an asynchronous call ends: with a value, with an exception, or (\<open>Pending\<close>) not
  within the number of nested calls the model was given.\<close>

datatype 'a completion = Returned 'a | Threw jserr | Pending

definition forgetSession :: "monitor \<Rightarrow> monitor" where
  "forgetSession m = m\<lparr> cookie := None, csrfToken := None, apiPrefix := None, useSessionAuth := None \<rparr>"

text \<open>
  \<^verbatim>\<open>apiRequest\<close> itself. Its two recursive calls (\<^verbatim>\<open>return this.apiRequest(endpoint)\<close>,
  after the full reset and in the \<^verbatim>\<open>catch\<close> clause) take one unit of the first argument
  each; the result of a recursive call is returned as it is.
  \<^verbatim>\<open>
      if (response.status === 401 || response.status === 403) {
        this.cookie = null; this.csrfToken = null; this.apiPrefix = null; this.useSessionAuth = null;
        await this.authenticate();
        return this.apiRequest(endpoint);
      }
      const data = response.data;
      ... (the unwrap rule)
  \<close>
\<close>

fun apiRequest :: "nat \<Rightarrow> controller \<Rightarrow> jstring \<Rightarrow> session \<Rightarrow> session \<times> json completion" where
  "apiRequest 0 srv endpoint w = (w, Pending)"
| "apiRequest (Suc n) srv endpoint w =
     (case firstAttempt srv (normalizeEndpoint endpoint) w of
        (w1, Inr res) \<Rightarrow>
          if unauthorized res
          then (case authenticate srv (w1\<lparr> mon := forgetSession (mon w1) \<rparr>) of
                  (w2, Inr u) \<Rightarrow> apiRequest n srv (normalizeEndpoint endpoint) w2
                | (w2, Inl err) \<Rightarrow>
                    (case catchClause w2 err of
                       Inl thrown \<Rightarrow> (w2, Threw thrown)
                     | Inr w3 \<Rightarrow> apiRequest n srv (normalizeEndpoint endpoint) w3))
          else (w1, Returned (unwrapPayload (r_data res)))
      | (w1, Inl err) \<Rightarrow>
          (case catchClause w1 err of
             Inl thrown \<Rightarrow> (w1, Threw thrown)
           | Inr w2 \<Rightarrow> apiRequest n srv (normalizeEndpoint endpoint) w2))"

declare apiRequest.simps [simp del]

section \<open>utils/diagnostics.js: ping, traceroute and the port test\<close>

text \<open>
  \<^verbatim>\<open>
  function sanitizeHost(input) {
    if (typeof input !== 'string') return null;
    const s = input.trim();
    if (s.length === 0 || s.length > 253) return null;
    if (!/^[a-zA-Z0-9.\-_:\[\]]+$/.test(s)) return null;
    return s;
  }
  \<close>
  An argument that is not a string is \<open>None\<close>.
\<close>

definition isHostChar :: "nat \<Rightarrow> bool" where
  "isHostChar c \<longleftrightarrow>
     (97 \<le> c \<and> c \<le> 122) \<or> (65 \<le> c \<and> c \<le> 90) \<or> (48 \<le> c \<and> c \<le> 57)
     \<or> c \<in> set (str ''.-_:[]'')"

definition sanitizeHost :: "jstring option \<Rightarrow> jstring option" where
  "sanitizeHost input =
     (case input of
        None \<Rightarrow> None
      | Some i \<Rightarrow>
          (let s = trim i in
           if length s = 0 \<or> length s > 253 then None
           else if \<not> list_all isHostChar s then None
           else Some s))"

text \<open>
  The platform as the runners meet it: whether it is Windows, what a shell command does
  (\<^verbatim>\<open>execAsync\<close> resolves with stdout and stderr, or rejects with an error that carries
  them and a message), what a TCP connection attempt does within the 5 s timeout, and
  what the runtime reads in a number too large to be exact (\<open>os_parseInt\<close>, below).
\<close>

datatype execResult = ExecOk jstring jstring | ExecFailed jstring jstring jstring

datatype connectResult = Connected | ConnectError jstring | NoAnswer

record os =
  os_win32 :: bool
  os_exec :: "jstring \<Rightarrow> execResult"
  os_connect :: "nat \<Rightarrow> jstring \<Rightarrow> connectResult"
  os_parseInt :: "int \<Rightarrow> int option"

text \<open>What a call does to the outside: the subprocesses it spawns and the TCP connections it
  opens.\<close>

datatype effect = Spawn jstring | TcpConnect nat jstring

record commandResult =
  c_success :: bool
  c_output :: jstring
  c_error :: "jstring option"

record portResult =
  p_open :: bool
  p_message :: jstring

text \<open>
  \<^verbatim>\<open>parseInt(v, 10)\<close> on a count or a port: an integer-valued number, or \<open>None\<close> for a
  value that is missing or not a number (the callers in this program pass a number that
  \<^verbatim>\<open>parseInt\<close> read from the digits of the message, or a literal). \<^verbatim>\<open>parseInt\<close> prints
  its argument and reads the print: \<open>None\<close> is NaN. An integer below \<open>2^53\<close> in absolute
  value is a number of the runtime, prints as its digits and is read back as itself. A
  larger one is held as the nearest number the runtime has, which from \<open>10^21\<close> on prints
  in exponent notation (\<^verbatim>\<open>1e+21\<close>), where only the digits before the point or the
  \<^verbatim>\<open>e\<close> are read, and beyond the range of numbers as \<^verbatim>\<open>Infinity\<close>, which is read
  as NaN: for such an integer the result is the runtime's, \<open>os_parseInt\<close>.
\<close>

definition parseInt10 :: "os \<Rightarrow> int option \<Rightarrow> int option" where
  "parseInt10 sys v =
     (case v of
        None \<Rightarrow> None
      | Some n \<Rightarrow> if \<bar>n\<bar> < 2 ^ 53 then Some n else os_parseInt sys n)"

text \<open>\<^verbatim>\<open>Math.min(Math.max(1, p || dflt), cap)\<close> for the value \<^verbatim>\<open>p\<close> that \<^verbatim>\<open>parseInt\<close>
  returned.\<close>

definition clampCount :: "int option \<Rightarrow> int \<Rightarrow> int \<Rightarrow> int" where
  "clampCount p dflt cap =
     min (max 1 (case p of None \<Rightarrow> dflt | Some n \<Rightarrow> if n = 0 then dflt else n)) cap"

text \<open>\<^verbatim>\<open>msg || dflt\<close> on a string.\<close>

definition textOr :: "jstring \<Rightarrow> jstring \<Rightarrow> jstring" where
  "textOr msg dflt = (if msg = [] then dflt else msg)"

definition commandOutcome :: "execResult \<Rightarrow> jstring \<Rightarrow> commandResult" where
  "commandOutcome r failed =
     (case r of
        ExecOk out err \<Rightarrow> \<lparr> c_success = True, c_output = out @ err, c_error = None \<rparr>
      | ExecFailed out err msg \<Rightarrow> \<lparr> c_success = False, c_output = out @ err, c_error = Some (textOr msg failed) \<rparr>)"

definition invalidHost :: commandResult where
  "invalidHost = \<lparr> c_success = False, c_output = [], c_error = Some (str ''Invalid or missing host'') \<rparr>"

text \<open>
  \<^verbatim>\<open>
  async function runPing(host, count = 4) {
    const target = sanitizeHost(host);
    if (!target) return { success: false, output: '', error: 'Invalid or missing host' };
    const c = Math.min(Math.max(1, parseInt(count, 10) || 4), MAX_PING_COUNT);
    const cmd = process.platform === 'win32' ? `ping -n ${c} ${target}` : `ping -c ${c} -W 3 ${target}`;
    try {
      const { stdout, stderr } = await execAsync(cmd, { timeout: PING_TIMEOUT_MS, maxBuffer: 4096 });
      return { success: true, output: (stdout || '') + (stderr || ''), error: null };
    } catch (err) {
      const out = (err.stdout || '') + (err.stderr || '');
      return { success: false, output: out, error: err.message || 'Ping failed' };
    }
  }
  \<close>
\<close>

definition pingCommand :: "bool \<Rightarrow> int \<Rightarrow> jstring \<Rightarrow> jstring" where
  "pingCommand win32 c target =
     (if win32 then str ''ping -n '' @ showInt c @ str '' '' @ target
      else str ''ping -c '' @ showInt c @ str '' -W 3 '' @ target)"

definition runPing :: "os \<Rightarrow> jstring option \<Rightarrow> int option \<Rightarrow> effect list \<times> commandResult" where
  "runPing sys host count =
     (case sanitizeHost host of
        None \<Rightarrow> ([], invalidHost)
      | Some target \<Rightarrow>
          (let cmd = pingCommand (os_win32 sys) (clampCount (parseInt10 sys count) 4 5) target
           in ([Spawn cmd], commandOutcome (os_exec sys cmd) (str ''Ping failed''))))"

text \<open>
  \<^verbatim>\<open>
  async function runTraceroute(host, maxHops = 15) {
    const target = sanitizeHost(host);
    if (!target) return { success: false, output: '', error: 'Invalid or missing host' };
    const hops = Math.min(Math.max(1, parseInt(maxHops, 10) || 15), MAX_TRACEROUTE_HOPS);
    let cmd;
    if (process.platform === 'win32') { cmd = `tracert -h ${hops} ${target}`; }
    else { cmd = `traceroute -m ${hops} ${target} 2>/dev/null || tracepath -m ${hops} ${target}`; }
    ... (as runPing, with 'Traceroute failed')
  \<close>
\<close>

definition tracerouteCommand :: "bool \<Rightarrow> int \<Rightarrow> jstring \<Rightarrow> jstring" where
  "tracerouteCommand win32 hops target =
     (if win32 then str ''tracert -h '' @ showInt hops @ str '' '' @ target
      else str ''traceroute -m '' @ showInt hops @ str '' '' @ target @ str '' 2>/dev/null || tracepath -m ''
           @ showInt hops @ str '' '' @ target)"

definition runTraceroute :: "os \<Rightarrow> jstring option \<Rightarrow> int option \<Rightarrow> effect list \<times> commandResult" where
  "runTraceroute sys host maxHops =
     (case sanitizeHost host of
        None \<Rightarrow> ([], invalidHost)
      | Some target \<Rightarrow>
          (let cmd = tracerouteCommand (os_win32 sys) (clampCount (parseInt10 sys maxHops) 15 20) target
           in ([Spawn cmd], commandOutcome (os_exec sys cmd) (str ''Traceroute failed''))))"

text \<open>
  \<^verbatim>\<open>
  function testPort(host, port) {
    const target = sanitizeHost(host);
    if (!target) return Promise.resolve({ open: false, message: 'Invalid or missing host' });
    const p = parseInt(port, 10);
    if (!Number.isInteger(p) || p < 1 || p > 65535)
      return Promise.resolve({ open: false, message: 'Invalid port (use 1-65535)' });
    return new Promise((resolve) => {
      const socket = new net.Socket();
      const timeout = setTimeout(() => { socket.destroy();
        resolve({ open: false, message: `Connection timed out after ${PORT_CHECK_TIMEOUT_MS / 1000}s` }); }, ...);
      socket.on('connect', () => { ... resolve({ open: true, message: `Port ${p} is open on ${target}` }); });
      socket.on('error', (err) => { ... resolve({ open: false, message: err.message || 'Connection refused or unreachable' }); });
      socket.connect(p, target);
    });
  }
  \<close>
  A port that is missing or not a number is \<open>None\<close>.
\<close>

definition testPort :: "os \<Rightarrow> jstring option \<Rightarrow> int option \<Rightarrow> effect list \<times> portResult" where
  "testPort sys host port =
     (case sanitizeHost host of
        None \<Rightarrow> ([], \<lparr> p_open = False, p_message = str ''Invalid or missing host'' \<rparr>)
      | Some target \<Rightarrow>
          (case parseInt10 sys port of
             None \<Rightarrow> ([], \<lparr> p_open = False, p_message = str ''Invalid port (use 1-65535)'' \<rparr>)
           | Some p \<Rightarrow>
               if p < 1 \<or> p > 65535
               then ([], \<lparr> p_open = False, p_message = str ''Invalid port (use 1-65535)'' \<rparr>)
               else
                 ([TcpConnect (nat p) target],
                  case os_connect sys (nat p) target of
                    Connected \<Rightarrow> \<lparr> p_open = True, p_message = str ''Port '' @ showInt p @ str '' is open on '' @ target \<rparr>
                  | ConnectError msg \<Rightarrow>
                      \<lparr> p_open = False, p_message = textOr msg (str ''Connection refused or unreachable'') \<rparr>
                  | NoAnswer \<Rightarrow> \<lparr> p_open = False, p_message = str ''Connection timed out after 5s'' \<rparr>)))"

section \<open>Regular expressions of the intent detectors\<close>

text \<open>
  The detectors of diagnostics.js are regular expressions. \<open>rx\<close> has the constructs they
  use; \<open>rxMatch\<close> gives, for a position in the text, every way the expression can match
  there, in the order the backtracking matcher of JavaScript tries them (the left
  alternative first, a quantifier as often as it can first). A position is the code unit
  before it (none at the start), the text after it and the groups captured so far. No
  group of these expressions stands inside a \<^verbatim>\<open>*\<close> or \<^verbatim>\<open>+\<close>.
\<close>

datatype rx =
    Eps
  | Unit "nat \<Rightarrow> bool"
  | Seq rx rx
  | Alt rx rx
  | Star rx
  | Group nat rx
  | WordBoundary
  | Bos
  | Eos


















primrec times :: "nat \<Rightarrow> rx \<Rightarrow> rx" where
  "times 0 r = Eps"
| "times (Suc n) r = Seq r (times n r)"









section \<open>utils/diagnostics.js: the intent detectors\<close>























section \<open>getMonitoringContext: the diagnostics it runs\<close>

























section \<open>getMonitoringContext: list sections\<close>

subsection \<open>Cloud sections: formatCloudList\<close>







text \<open>The number of line breaks in a text.\<close>

definition lineBreaks :: "jstring \<Rightarrow> nat" where
  "lineBreaks s = length (filter (\<lambda>c. c = 10) s)"

subsection \<open>Local-controller sections: alarms and networks\<close>






section \<open>The server and the exports of utils/monitoring.js\<close>

text \<open>
  The last statement of monitoring.js:
  \<^verbatim>\<open>
  module.exports = { getMonitoringData, getMonitoringContext, lookupClientByIp, testUniFiConnection,
    testUniFiSiteManagerConnection, requestSiteManagerPath,
    UniFiMonitor, UniFiSiteManagerMonitor, PrometheusMonitor };
  \<close>
  and the import of the server:
  \<^verbatim>\<open>
  const { getMonitoringContext, getMonitoringData, lookupClientByIp, testUniFiConnection,
    testUniFiSiteManagerConnection, requestSiteManagerPath, invalidateMonitoringCache }
      = require('./utils/monitoring');
  \<close>
  A name the module does not export is bound to \<^verbatim>\<open>undefined\<close>, and calling it throws a
  TypeError.
\<close>

definition monitoringExports :: "jstring list" where
  "monitoringExports =
     [str ''getMonitoringData'', str ''getMonitoringContext'', str ''lookupClientByIp'',
      str ''testUniFiConnection'', str ''testUniFiSiteManagerConnection'', str ''requestSiteManagerPath'',
      str ''UniFiMonitor'', str ''UniFiSiteManagerMonitor'', str ''PrometheusMonitor'']"

definition callImported :: "jstring \<Rightarrow> jserr + unit" where
  "callImported name =
     (if name \<in> set monitoringExports then Inr ()
      else Inl (typeError (name @ str '' is not a function'')))"

text \<open>
  The end of the \<^verbatim>\<open>PUT /api/config\<close> handler, after \<^verbatim>\<open>updateConfig(updates)\<close> has
  stored the new settings, and the \<^verbatim>\<open>POST /api/config/reload\<close> handler after
  \<^verbatim>\<open>reloadConfig()\<close>:
  \<^verbatim>\<open>
      if (updates.monitoring) { invalidateMonitoringCache(); }
      ...
      res.json(safeConfig);
    } catch (error) {
      res.status(500).json({ error: error.message });
    }
  \<close>
  The argument says whether \<^verbatim>\<open>updates.monitoring\<close> is set.
\<close>

record httpAnswer =
  a_status :: nat
  a_error :: "jstring option"

definition putConfig :: "bool \<Rightarrow> httpAnswer" where
  "putConfig updatesMonitoring =
     (case (if updatesMonitoring then callImported (str ''invalidateMonitoringCache'') else Inr ()) of
        Inr u \<Rightarrow> \<lparr> a_status = 200, a_error = None \<rparr>
      | Inl error \<Rightarrow> \<lparr> a_status = 500, a_error = Some (errMessage error) \<rparr>)"

definition postConfigReload :: httpAnswer where
  "postConfigReload =
     (case callImported (str ''invalidateMonitoringCache'') of
        Inr u \<Rightarrow> \<lparr> a_status = 200, a_error = None \<rparr>
      | Inl error \<Rightarrow> \<lparr> a_status = 500, a_error = Some (errMessage error) \<rparr>)"

section \<open>Example data\<close>

text \<open>Devices as a controller lists them: two without any status field, one online, two
  offline.\<close>

definition devPlainA :: json where
  "devPlainA = JObj [(str ''mac'', JStr (str ''aa:01'')), (str ''name'', JStr (str ''sw-1''))]"

definition devPlainB :: json where
  "devPlainB = JObj [(str ''mac'', JStr (str ''aa:02''))]"

definition devOn :: json where
  "devOn = JObj [(str ''mac'', JStr (str ''aa:03'')), (str ''state'', JNum 1)]"

definition devOff :: json where
  "devOff = JObj [(str ''mac'', JStr (str ''aa:04'')), (str ''state'', JNum 0)]"

definition devDown :: json where
  "devDown = JObj [(str ''mac'', JStr (str ''aa:05'')), (str ''status'', JStr (str ''Offline''))]"

text \<open>A device whose fields disagree: its state says offline, its \<^verbatim>\<open>connected\<close> flag says
  online.\<close>

definition devMixed :: json where
  "devMixed = JObj [(str ''mac'', JStr (str ''aa:06'')), (str ''state'', JStr (str ''offline'')),
                    (str ''connected'', JBool True)]"

text \<open>A controller configuration and the client made from it, before any request.\<close>

definition homeConfig :: controllerConfig where
  "homeConfig = \<lparr> cfg_name = Some (str ''home''), cfg_baseUrl = Some (str ''https://192.168.1.1/''),
                   cfg_apiKey = Some (str ''secret''), cfg_site = None, cfg_verifySSL = Some False \<rparr>"

definition freshSession :: session where
  "freshSession = \<lparr> mon = newMonitor homeConfig, sent = [] \<rparr>"

definition plainResponse :: "nat \<Rightarrow> json option \<Rightarrow> response" where
  "plainResponse code body = \<lparr> r_status = code, r_setCookie = None, r_csrf = None, r_data = body \<rparr>"

text \<open>A controller that answers every request with 404 and a JSON error body.\<close>

definition notFoundController :: controller where
  "notFoundController k req = Reply (plainResponse 404 (Some (JObj [(str ''error'', JStr (str ''Not Found''))])))"

text \<open>A controller that accepts the login (200, a session cookie and a CSRF token) and
  answers every GET with 401.\<close>

fun loginOnlyController :: controller where
  "loginOnlyController k (HttpPost url user pass) =
     Reply \<lparr> r_status = 200, r_setCookie = Some [str ''TOKEN=abc; Path=/''], r_csrf = Some (str ''t1''),
             r_data = Some (JObj []) \<rparr>"
| "loginOnlyController k (HttpGet url headers) = Reply (plainResponse 401 None)"

text \<open>A controller that answers every request, the login too, with 401.\<close>

definition lockedController :: controller where
  "lockedController k req = Reply (plainResponse 401 None)"

text \<open>A controller that cannot be reached.\<close>

definition unreachableController :: controller where
  "unreachableController k req = NetworkError (str ''ECONNREFUSED'') (str ''connect ECONNREFUSED 192.168.1.1:443'')"

text \<open>The requests of \<^verbatim>\<open>doRequest\<close> carry the API key; the probes of the prefix do not.\<close>

fun isApiGet :: "request \<Rightarrow> bool" where
  "isApiGet (HttpGet url headers) = (map_of headers (str ''X-API-Key'') \<noteq> None)"
| "isApiGet (HttpPost url user pass) = False"

text \<open>A client that can log in at all has a base URL and a key; \<open>apiGets\<close> counts the
  requests of \<^verbatim>\<open>doRequest\<close> it has sent.\<close>

definition configured :: "session \<Rightarrow> bool" where
  "configured w \<longleftrightarrow> baseUrl (mon w) \<noteq> [] \<and> apiKey (mon w) \<noteq> []"

definition apiGets :: "session \<Rightarrow> nat" where
  "apiGets w = length (filter isApiGet (sent w))"

text \<open>A Unix host on which every command prints nothing and no connection is answered, and
  one on which every command prints a line and every connection is accepted. The examples
  hold no number beyond \<open>2^53\<close>.\<close>

definition quietOs :: os where
  "quietOs = \<lparr> os_win32 = False, os_exec = (\<lambda>cmd. ExecOk [] []), os_connect = (\<lambda>p h. NoAnswer),
               os_parseInt = (\<lambda>n. None) \<rparr>"








text \<open>A runtime whose string-to-number conversion yields NaN; the one string that the
  example devices hold in a status field, \<^verbatim>\<open>Offline\<close>, is no number.\<close>

definition nanOnStrings :: "jstring \<Rightarrow> int option" where
  "nanOnStrings s = None"

section \<open>Properties\<close>

subsection \<open>Evaluation and counting lemmas\<close>

lemmas js_eval = str_def nullish_def toLowerCase_def lowerUnit_def showInt_def showNat.simps
  propIs_def propOf_def typeError_def newError_def

lemmas dev_defs = devPlainA_def devPlainB_def devOn_def devOff_def devDown_def devMixed_def

lemma countM_filter: "countM p xs = Inr n \<Longrightarrow> n = length (filter (\<lambda>x. p x = Inr True) xs)"
  by (induction xs arbitrary: n) (auto split: sum.splits if_splits)

lemma countM_le: "countM p xs = Inr n \<Longrightarrow> n \<le> length xs"
  by (induction xs arbitrary: n) (auto split: sum.splits if_splits)

lemma countM_all_False: "\<forall>x\<in>set xs. p x = Inr False \<Longrightarrow> countM p xs = Inr 0"
  by (induction xs) auto

lemma someM_all_False: "\<forall>x\<in>set xs. p x = Inr False \<Longrightarrow> someM p xs = Inr False"
  by (induction xs) auto

lemma someM_hit: "someM p xs = Inr b \<Longrightarrow> x \<in> set xs \<Longrightarrow> p x = Inr True \<Longrightarrow> b"
  by (induction xs arbitrary: b) (auto split: sum.splits if_splits)

lemma sentinel_not_empty: "str ''connected'' \<noteq> []" "str ''online'' \<noteq> []" "str ''1'' \<noteq> []"
  by (simp_all add: str_def)

lemma noStatus_not_online: "noStatusFields d \<Longrightarrow> deviceIsOnline toNum d = Inr False"
  unfolding noStatusFields_def statusFields_def deviceIsOnline_def
  by (cases "jget d (str ''state'')"; cases "jget d (str ''status'')")
     (auto simp: nullish_def toLowerCase_def sentinel_not_empty [symmetric] Let_def)

lemma noStatus_carries: "noStatusFields d \<Longrightarrow> carriesStatus d = Inr False"
  unfolding noStatusFields_def statusFields_def carriesStatus_def hasStatusValue_def
  by (auto simp: nullish_def Let_def)

lemma hasStatus_carries: "hasStatusValue d \<Longrightarrow> carriesStatus d = Inr True"
  by (auto simp: carriesStatus_def hasStatusValue_def nullish_def Let_def)

lemma cloud_lenient: "\<forall>d\<in>set ds. noStatusFields d \<Longrightarrow> cloudOnline toNum ds = Inr (length ds)"
  by (simp add: cloudOnline_def countM_all_False noStatus_not_online someM_all_False noStatus_carries)

lemma cloud_strict:
  "d \<in> set ds \<Longrightarrow> hasStatusValue d \<Longrightarrow> cloudOnline toNum ds = Inr n \<Longrightarrow>
   n = length (filter (\<lambda>x. deviceIsOnline toNum x = Inr True) ds)"
  by (auto simp: cloudOnline_def split: sum.splits if_splits
      dest: countM_filter someM_hit [where x = d] hasStatus_carries)

lemma cloudOnline_le: "cloudOnline toNum ds = Inr n \<Longrightarrow> n \<le> length ds"
  by (auto simp: cloudOnline_def split: sum.splits if_splits dest: countM_le)

text \<open>The device counts of a result, for both clients.\<close>

lemma local_devices:
  assumes "localHealthMetrics ds cs = Inr m"
  shows "\<exists>n. countM (propIs (str ''state'') (JNum 1)) ds = Inr n \<and>
             m_devices m = \<lparr> dev_total = int (length ds), dev_online = int n,
                             dev_offline = int (length ds) - int n \<rparr>"
proof (cases "countM (propIs (str ''state'') (JNum 1)) ds")
  case (Inl e)
  with assms show ?thesis by (simp add: localHealthMetrics_def localCounts_def)
next
  case (Inr n)
  with assms show ?thesis
    by (simp add: localHealthMetrics_def localCounts_def split: sum.splits) auto
qed

lemma cloud_devices:
  assumes "cloudHealthMetrics toNum ss ds cs = Inr m"
  shows "\<exists>n. cloudOnline toNum ds = Inr n \<and>
             m_devices m = \<lparr> dev_total = int (length ds), dev_online = int n,
                             dev_offline = int (length ds) - int n \<rparr>"
proof (cases "cloudOnline toNum ds")
  case (Inl e)
  with assms show ?thesis by (simp add: cloudHealthMetrics_def)
next
  case (Inr n)
  with assms show ?thesis
    by (simp add: cloudHealthMetrics_def split: sum.splits) auto
qed

lemma local_strict:
  "localHealthMetrics ds cs = Inr m \<Longrightarrow>
   dev_online (m_devices m) = int (length (filter (\<lambda>d. jget d (str ''state'') = Some (JNum 1)) ds))"
proof -
  have eq: "(\<lambda>x. propIs (str ''state'') (JNum 1) x = Inr True)
            = (\<lambda>d. jget d (str ''state'') = Some (JNum 1))"
    by (auto simp: propIs_def propOf_def fun_eq_iff)
  assume "localHealthMetrics ds cs = Inr m"
  from local_devices [OF this] obtain n where "countM (propIs (str ''state'') (JNum 1)) ds = Inr n"
    "dev_online (m_devices m) = int n" by auto
  then show ?thesis using countM_filter [of "propIs (str ''state'') (JNum 1)" ds n] by (simp add: eq)
qed

lemma dev_no_status: "noStatusFields devPlainA" "noStatusFields devPlainB"
  by (simp_all add: noStatusFields_def statusFields_def dev_defs js_eval)

lemma dev_has_status: "hasStatusValue devOff" "hasStatusValue devOn"
  by (simp_all add: hasStatusValue_def dev_defs js_eval)

lemma dev_down_offline: "offlineOnly devDown"
  by (simp add: offlineOnly_def offlineOrAbsent_def statusFields_def testedFields_def offlineWords_def
        devDown_def js_eval)

lemma dev_online_eval:
  "deviceIsOnline nanOnStrings devOff = Inr False" "deviceIsOnline nanOnStrings devOn = Inr True"
  "deviceIsOnline nanOnStrings devPlainA = Inr False" "deviceIsOnline nanOnStrings devPlainB = Inr False"
  "deviceIsOnline nanOnStrings devDown = Inr False" "deviceIsOnline nanOnStrings devMixed = Inr True"
  by (simp_all add: deviceIsOnline_def dev_defs js_eval nanOnStrings_def)

lemma dev_carries_eval:
  "carriesStatus devOff = Inr True" "carriesStatus devOn = Inr True"
  "carriesStatus devPlainA = Inr False" "carriesStatus devPlainB = Inr False"
  "carriesStatus devDown = Inr True"
  by (simp_all add: carriesStatus_def hasStatusValue_def dev_defs js_eval)

lemma dev_state_eval:
  "propIs (str ''state'') (JNum 1) devOff = Inr False" "propIs (str ''state'') (JNum 1) devOn = Inr True"
  "propIs (str ''state'') (JNum 1) devPlainA = Inr False" "propIs (str ''state'') (JNum 1) devPlainB = Inr False"
  "propIs (str ''state'') (JNum 1) devDown = Inr False"
  by (simp_all add: dev_defs js_eval)

lemma dev_type_eval:
  "typeKey devOff = Inr (str ''unknown'')" "typeKey devOn = Inr (str ''unknown'')"
  "typeKey devPlainA = Inr (str ''unknown'')" "typeKey devPlainB = Inr (str ''unknown'')"
  "typeKey devDown = Inr (str ''unknown'')"
  by (simp_all add: typeKey_def dev_defs js_eval)

lemma dev_valid_eval:
  "isValidDevice devOff = Inr True" "isValidDevice devOn = Inr True"
  "isValidDevice devPlainA = Inr True" "isValidDevice devPlainB = Inr True"
  "isValidDevice devDown = Inr True"
  "isValidCloudDevice devOff = Inr True" "isValidCloudDevice devOn = Inr True"
  "isValidCloudDevice devPlainA = Inr True" "isValidCloudDevice devPlainB = Inr True"
  by (simp_all add: isValidDevice_def isValidCloudDevice_def dev_defs js_eval trim_def isWhiteSpace_def)

text \<open>A device that shows nothing but offline is rejected by \<^verbatim>\<open>_deviceIsOnline\<close>, passes
  the \<^verbatim>\<open>anyWithStatus\<close> test, and its \<^verbatim>\<open>state\<close> is not the number 1.\<close>

lemma offline_text:
  "offlineValue v \<Longrightarrow>
   \<exists>s. jsToString v = Inr s \<and> toLowerCase s \<noteq> str ''connected'' \<and> toLowerCase s \<noteq> str ''online''
       \<and> toLowerCase s \<noteq> str ''1''"
  by (cases v) (auto simp: offlineWords_def js_eval)

lemma empty_text: "toLowerCase [] \<noteq> str ''connected'' \<and> toLowerCase [] \<noteq> str ''online'' \<and> toLowerCase [] \<noteq> str ''1''"
  by (simp add: js_eval)

lemma coalesceOr_offline:
  "list_all offlineOrAbsent vs \<Longrightarrow>
   coalesceOr vs (JStr []) = JStr [] \<or> offlineValue (coalesceOr vs (JStr []))"
  by (induction vs) (auto simp: offlineOrAbsent_def nullish_def split: option.splits)

lemma coalesce_offline: "list_all offlineOrAbsent vs \<Longrightarrow> offlineOrAbsent (coalesce vs)"
  by (induction vs rule: coalesce.induct) (auto simp: offlineOrAbsent_def)

lemma coalesce_found: "list_ex (\<lambda>v. \<not> nullish v) vs \<Longrightarrow> \<not> nullish (coalesce vs)"
  by (induction vs rule: coalesce.induct) auto

lemma number_offline:
  "offlineOrAbsent v \<Longrightarrow> \<forall>s. toLowerCase s \<in> set offlineWords \<longrightarrow> toNum s \<noteq> Some 1 \<Longrightarrow>
   \<exists>n. jsNumber toNum v = Inr n \<and> n \<noteq> Some 1"
  by (cases v; cases "the v") (auto simp: offlineOrAbsent_def)

lemma offlineOnly_fields:
  assumes "offlineOnly d"
  shows "offlineOrAbsent (jget d (str ''state''))" "offlineOrAbsent (jget d (str ''connectionState''))"
    "offlineOrAbsent (jget d (str ''status''))" "offlineOrAbsent (jget d (str ''connection_status''))"
    "offlineOrAbsent (jget d (str ''connected''))" "offlineOrAbsent (jget d (str ''isOnline''))"
  using assms by (simp_all add: offlineOnly_def statusFields_def)

lemma offlineOnly_not_online:
  assumes d: "offlineOnly d" and rt: "\<forall>s. toLowerCase s \<in> set offlineWords \<longrightarrow> toNum s \<noteq> Some 1"
  shows "deviceIsOnline toNum d = Inr False"
proof -
  note f = offlineOnly_fields [OF d]
  let ?v = "coalesceOr [jget d (str ''state''), jget d (str ''connectionState''),
                        jget d (str ''status''), jget d (str ''connection_status'')] (JStr [])"
  have "?v = JStr [] \<or> offlineValue ?v"
    using f by (intro coalesceOr_offline) simp
  then obtain t where t: "jsToString ?v = Inr t" "toLowerCase t \<noteq> str ''connected''"
      "toLowerCase t \<noteq> str ''online''" "toLowerCase t \<noteq> str ''1''"
    using offline_text [of ?v] empty_text by auto
  have c: "jget d (str ''connected'') \<noteq> Some (JBool True)" "jget d (str ''isOnline'') \<noteq> Some (JBool True)"
    using f by (auto simp: offlineOrAbsent_def)
  have "offlineOrAbsent (coalesce [jget d (str ''state''), jget d (str ''status'')])"
    using f by (intro coalesce_offline) simp
  then obtain n where n: "jsNumber toNum (coalesce [jget d (str ''state''), jget d (str ''status'')]) = Inr n"
      "n \<noteq> Some 1"
    using number_offline [OF _ rt] by blast
  show ?thesis
    unfolding deviceIsOnline_def using t c n by (simp add: Let_def)
qed

lemma offlineOnly_carries: "offlineOnly d \<Longrightarrow> hasStatusValue d"
proof -
  assume d: "offlineOnly d"
  let ?vs = "[jget d (str ''state''), jget d (str ''status''), jget d (str ''connectionState''),
              jget d (str ''connected''), jget d (str ''isOnline'')]"
  have a: "offlineOrAbsent (coalesce ?vs)"
    using offlineOnly_fields [OF d] by (intro coalesce_offline) simp
  have "list_ex (\<lambda>v. \<not> nullish v) ?vs"
    using d by (simp add: offlineOnly_def testedFields_def)
  then have b: "\<not> nullish (coalesce ?vs)" by (rule coalesce_found)
  from a b show ?thesis
    unfolding hasStatusValue_def Let_def
    by (cases "coalesce ?vs") (auto simp: offlineOrAbsent_def nullish_def offlineWords_def js_eval)
qed

lemma offlineOnly_state: "offlineOnly d \<Longrightarrow> jget d (str ''state'') \<noteq> Some (JNum 1)"
  using offlineOnly_fields(1) [of d] by (auto simp: offlineOrAbsent_def)

lemma local_excludes:
  assumes "offlineOnly d" and "localHealthMetrics (xs @ d # ys) cs = Inr m"
  shows "dev_online (m_devices m) = int (length (filter (\<lambda>x. jget x (str ''state'') = Some (JNum 1)) (xs @ ys)))"
  using local_strict [OF assms(2)] offlineOnly_state [OF assms(1)] by simp

lemma cloud_excludes:
  assumes "offlineOnly d" and "\<forall>s. toLowerCase s \<in> set offlineWords \<longrightarrow> toNum s \<noteq> Some 1"
    and "cloudOnline toNum (xs @ d # ys) = Inr n"
  shows "n = length (filter (\<lambda>x. deviceIsOnline toNum x = Inr True) (xs @ ys))"
  using cloud_strict [of d "xs @ d # ys" toNum n] offlineOnly_carries [OF assms(1)]
        offlineOnly_not_online [OF assms(1,2)] assms(3)
  by simp

subsection \<open>Requests of the local-controller client\<close>

lemma ensurePrefix_keeps [simp]:
  "baseUrl (ensurePrefix m) = baseUrl m" "apiKey (ensurePrefix m) = apiKey m"
  "cookie (ensurePrefix m) = cookie m" "csrfToken (ensurePrefix m) = csrfToken m"
  "useSessionAuth (ensurePrefix m) = useSessionAuth m"
  by (simp_all add: ensurePrefix_def detectApiPrefix_def)

lemma ensurePrefix_present [simp]: "present (apiPrefix (ensurePrefix m))"
  by (simp add: ensurePrefix_def detectApiPrefix_def str_def)

lemma detect_present [simp]: "present (apiPrefix (detectApiPrefix m))"
  by (simp add: detectApiPrefix_def str_def)

lemma ensurePrefix_idem [simp]: "ensurePrefix (ensurePrefix m) = ensurePrefix m"
  by (simp add: ensurePrefix_def)

lemma getCleanBaseUrl_ensure [simp]: "getCleanBaseUrl (ensurePrefix m) = getCleanBaseUrl m"
  by (simp add: getCleanBaseUrl_def)

lemma getApiBaseUrl_ensure [simp]: "getApiBaseUrl (ensurePrefix m) = getApiBaseUrl m"
  by (simp add: getApiBaseUrl_def)

lemma doRequest_resolved:
  assumes "srv (length (sent w)) (HttpGet (getApiBaseUrl (mon w) @ ep) (requestHeaders (ensurePrefix (mon w)) us)) = Reply res"
      and "r_status res < 500"
  shows "doRequest srv ep us w =
           (\<lparr> mon = ensurePrefix (mon w),
               sent = sent w @ [HttpGet (getApiBaseUrl (mon w) @ ep) (requestHeaders (ensurePrefix (mon w)) us)] \<rparr>,
            Inr res)"
  using assms by (simp add: doRequest_def axios_def Let_def)

text \<open>
  C5 (what the code does). A 404 reply to the request of \<^verbatim>\<open>apiRequest\<close> is below 500, so
  axios resolves it and the \<^verbatim>\<open>catch\<close> clause with the prefix flip is never entered: the
  call returns the unwrapped body of the 404 reply after that single request, with the
  assumed prefix unchanged.
\<close>

theorem not_found_not_retried:
  assumes "useSessionAuth (mon w) \<noteq> Some True"
      and "srv (length (sent w))
             (HttpGet (getApiBaseUrl (mon w) @ normalizeEndpoint ep) (requestHeaders (ensurePrefix (mon w)) False))
           = Reply res"
      and "r_status res = 404"
  shows "apiRequest (Suc n) srv ep w =
           (\<lparr> mon = ensurePrefix (mon w),
               sent = sent w @ [HttpGet (getApiBaseUrl (mon w) @ normalizeEndpoint ep)
                                  (requestHeaders (ensurePrefix (mon w)) False)] \<rparr>,
            Returned (unwrapPayload (r_data res)))"
  using assms by (simp add: apiRequest.simps firstAttempt_def doRequest_resolved unauthorized_def)


subsection \<open>The example client\<close>

lemma fresh_mon: "mon freshSession = \<lparr> baseUrl = str ''https://192.168.1.1'', apiKey = str ''secret'',
    site = str ''default'', verifySSL = False, cookie = None, csrfToken = None, apiPrefix = None,
    useSessionAuth = None \<rparr>"
  by (simp add: freshSession_def newMonitor_def homeConfig_def stripSlash_def str_def)

lemma fresh_clean: "getCleanBaseUrl (mon freshSession) = str ''https://192.168.1.1''"
  by (simp add: fresh_mon getCleanBaseUrl_def stripSlash_def startsWithCI_def sameLetter_def str_def)


lemma fresh_prefix: "ensurePrefix (mon freshSession) = (mon freshSession)\<lparr> apiPrefix := Some (str ''/proxy/network'') \<rparr>"
  by (simp add: fresh_mon ensurePrefix_def detectApiPrefix_def str_def)

lemma fresh_api_base: "getApiBaseUrl (mon freshSession) = str ''https://192.168.1.1/proxy/network''"
  by (simp add: getApiBaseUrl_def fresh_clean fresh_prefix) (simp add: str_def)

theorem not_found_not_retried_witness:
  "apiRequest 3 notFoundController (str ''/api/s/default/stat/device'') freshSession =
     (\<lparr> mon = (mon freshSession)\<lparr> apiPrefix := Some (str ''/proxy/network'') \<rparr>,
         sent = [HttpGet (str ''https://192.168.1.1/proxy/network/api/s/default/stat/device'')
                   [(str ''X-API-Key'', Some (str ''secret''))]] \<rparr>,
      Returned (JArr [JObj [(str ''error'', JStr (str ''Not Found''))]]))"
proof -
  let ?res = "plainResponse 404 (Some (JObj [(str ''error'', JStr (str ''Not Found''))]))"
  have s: "sent freshSession = []" by (simp add: freshSession_def)
  have u: "useSessionAuth (mon freshSession) \<noteq> Some True" by (simp add: fresh_mon)
  have e: "normalizeEndpoint (str ''/api/s/default/stat/device'') = str ''/api/s/default/stat/device''"
    by (simp add: normalizeEndpoint_def str_def)
  have h: "requestHeaders (ensurePrefix (mon freshSession)) False = [(str ''X-API-Key'', Some (str ''secret''))]"
    by (simp add: requestHeaders_def fresh_prefix) (simp add: fresh_mon str_def)
  have a: "getApiBaseUrl (mon freshSession) @ str ''/api/s/default/stat/device''
           = str ''https://192.168.1.1/proxy/network/api/s/default/stat/device''"
    by (simp add: fresh_api_base) (simp add: str_def)
  have r: "notFoundController (length (sent freshSession))
             (HttpGet (getApiBaseUrl (mon freshSession) @ normalizeEndpoint (str ''/api/s/default/stat/device''))
                (requestHeaders (ensurePrefix (mon freshSession)) False)) = Reply ?res"
    by (simp add: notFoundController_def)
  have st: "r_status ?res = 404" by (simp add: plainResponse_def)
  have d: "unwrapPayload (r_data ?res) = JArr [JObj [(str ''error'', JStr (str ''Not Found''))]]"
    by (simp add: plainResponse_def unwrapPayload_def str_def)
  have n: "Suc 2 = 3" by simp
  show ?thesis
    using not_found_not_retried [where w = freshSession and srv = notFoundController
        and ep = "str ''/api/s/default/stat/device''" and res = ?res and n = 2, OF u r st]
    unfolding n e a s d fresh_prefix by (simp add: h [unfolded fresh_prefix])
qed


lemma detect_keeps [simp]:
  "baseUrl (detectApiPrefix m) = baseUrl m" "apiKey (detectApiPrefix m) = apiKey m"
  "cookie (detectApiPrefix m) = cookie m" "useSessionAuth (detectApiPrefix m) = useSessionAuth m"
  by (simp_all add: detectApiPrefix_def)

lemma loginOnly_get:
  "axios loginOnlyController (HttpGet u h) w = (w\<lparr> sent := sent w @ [HttpGet u h] \<rparr>, Inr (plainResponse 401 None))"
  by (simp add: axios_def plainResponse_def)

lemma loginOnly_probe:
  "probePrefixes loginOnlyController ps w =
     w\<lparr> mon := detectApiPrefix (mon w),
        sent := sent w @ map (\<lambda>p. HttpGet (getCleanBaseUrl (mon w) @ p @ str ''/api/self'')
                  [(str ''Cookie'', cookie (mon w)), (str ''X-CSRF-Token'', csrfToken (mon w))]) ps \<rparr>"
  by (induction ps arbitrary: w) (simp_all add: loginOnly_get probeAccepted_def plainResponse_def)

lemma probe_not_api: "isApiGet (HttpGet u [(str ''Cookie'', c), (str ''X-CSRF-Token'', t)]) = False"
  by (simp add: str_def)

lemma loginOnly_auth:
  assumes "configured w"
  shows "\<exists>w'. authenticate loginOnlyController w = (w', Inr ()) \<and> configured w' \<and>
              useSessionAuth (mon w') = Some True \<and> present (cookie (mon w')) \<and> apiGets w' = apiGets w"
  using assms
  by (simp add: authenticate_def configured_def axios_def Let_def detectApiPrefixByProbing_def
        loginOnly_probe apiGets_def probe_not_api cookieOf_def) (simp add: str_def)

lemma loginOnly_doRequest:
  assumes "configured w"
  shows "\<exists>w'. doRequest loginOnlyController ep us w = (w', Inr (plainResponse 401 None)) \<and> configured w' \<and>
              apiGets w' = Suc (apiGets w)"
  using assms
  by (simp add: doRequest_def loginOnly_get Let_def configured_def apiGets_def requestHeaders_def)

lemma unauth401: "unauthorized (plainResponse 401 None)"
  by (simp add: unauthorized_def plainResponse_def)

lemma loginOnly_first:
  assumes "configured w"
  shows "\<exists>w'. firstAttempt loginOnlyController ep w = (w', Inr (plainResponse 401 None)) \<and> configured w' \<and>
              Suc (apiGets w) \<le> apiGets w'"
proof (cases "useSessionAuth (mon w) \<noteq> Some True")
  case True
  obtain w1 where 1: "doRequest loginOnlyController ep False w = (w1, Inr (plainResponse 401 None))"
      "configured w1" "apiGets w1 = Suc (apiGets w)"
    using loginOnly_doRequest [OF assms] by blast
  let ?w1 = "w1\<lparr> mon := (mon w1)\<lparr> useSessionAuth := Some True \<rparr> \<rparr>"
  have c1: "configured ?w1" "apiGets ?w1 = apiGets w1" using 1 by (simp_all add: configured_def apiGets_def)
  obtain w2 where 2: "authenticate loginOnlyController ?w1 = (w2, Inr ())" "configured w2" "apiGets w2 = apiGets ?w1"
    using loginOnly_auth [OF c1(1)] by blast
  obtain w3 where 3: "doRequest loginOnlyController ep True w2 = (w3, Inr (plainResponse 401 None))"
      "configured w3" "apiGets w3 = Suc (apiGets w2)"
    using loginOnly_doRequest [OF 2(2)] by blast
  show ?thesis using True 1 2 3 c1 by (simp add: firstAttempt_def unauth401)
next
  case False
  show ?thesis
  proof (cases "present (cookie (mon w))")
    case True
    then show ?thesis using False loginOnly_doRequest [OF assms, of ep True]
      by (auto simp: firstAttempt_def)
  next
    case nc: False
    obtain w1 where 1: "authenticate loginOnlyController w = (w1, Inr ())" "configured w1" "apiGets w1 = apiGets w"
      using loginOnly_auth [OF assms] by blast
    obtain w2 where 2: "doRequest loginOnlyController ep True w1 = (w2, Inr (plainResponse 401 None))"
        "configured w2" "apiGets w2 = Suc (apiGets w1)"
      using loginOnly_doRequest [OF 1(2)] by blast
    show ?thesis using False nc 1 2 by (simp add: firstAttempt_def)
  qed
qed

text \<open>
  Against a controller that accepts every login and rejects every GET with 401, the call
  goes on for as many nested calls as it is given, sending at least one more rejected
  request in each.
\<close>

lemma loginOnly_never_settles:
  "configured w \<Longrightarrow>
   snd (apiRequest n loginOnlyController ep w) = Pending \<and>
   apiGets w + n \<le> apiGets (fst (apiRequest n loginOnlyController ep w))"
proof (induction n arbitrary: w ep)
  case 0
  then show ?case by (simp add: apiRequest.simps)
next
  case (Suc n)
  obtain w1 where 1: "firstAttempt loginOnlyController (normalizeEndpoint ep) w = (w1, Inr (plainResponse 401 None))"
      "configured w1" "Suc (apiGets w) \<le> apiGets w1"
    using loginOnly_first [OF Suc.prems] by blast
  let ?w1 = "w1\<lparr> mon := forgetSession (mon w1) \<rparr>"
  have c1: "configured ?w1" "apiGets ?w1 = apiGets w1"
    using 1 by (simp_all add: configured_def apiGets_def forgetSession_def)
  obtain w2 where 2: "authenticate loginOnlyController ?w1 = (w2, Inr ())" "configured w2" "apiGets w2 = apiGets ?w1"
    using loginOnly_auth [OF c1(1)] by blast
  have "apiRequest (Suc n) loginOnlyController ep w = apiRequest n loginOnlyController (normalizeEndpoint ep) w2"
    using 1 2 by (simp add: apiRequest.simps unauth401)
  then show ?case using Suc.IH [OF 2(2), of "normalizeEndpoint ep"] 1 2 c1 by simp
qed

lemma fresh_configured: "configured freshSession"
  by (simp add: configured_def fresh_mon str_def)

lemma fresh_apiGets: "apiGets freshSession = 0"
  by (simp add: apiGets_def freshSession_def)

text \<open>
  C2 (what the code does). With a controller that accepts the login and answers every GET
  with 401, \<^verbatim>\<open>apiRequest\<close> is still not settled after \<open>n\<close> nested calls, for every
  \<open>n\<close>, and has by then sent at least \<open>n\<close> requests that were rejected: the retries are
  not bounded by two and no AuthError surfaces.
\<close>

theorem auth_retry_unbounded:
  "snd (apiRequest n loginOnlyController ep freshSession) = Pending \<and>
   n \<le> apiGets (fst (apiRequest n loginOnlyController ep freshSession))"
  using loginOnly_never_settles [OF fresh_configured, of n ep] by (simp add: fresh_apiGets)

subsection \<open>Where the client gives up\<close>

text \<open>
  Two runs that do end. Against a controller that refuses the connection the first GET is
  rejected and the catch clause throws the connection message; against a controller that
  rejects the login as well, the first 401 makes the client log in, the login fails, and
  its error leaves \<^verbatim>\<open>apiRequest\<close> unchanged after one GET and one POST.
\<close>

lemma doRequest_rejected:
  assumes "srv (length (sent w)) (HttpGet (getApiBaseUrl (mon w) @ ep) (requestHeaders (ensurePrefix (mon w)) us))
           = NetworkError code msg"
  shows "doRequest srv ep us w =
           (\<lparr> mon = ensurePrefix (mon w),
               sent = sent w @ [HttpGet (getApiBaseUrl (mon w) @ ep) (requestHeaders (ensurePrefix (mon w)) us)] \<rparr>,
            Inl (JsError (Some code) None msg))"
  using assms by (simp add: doRequest_def axios_def Let_def)

lemma fresh_headers: "requestHeaders (ensurePrefix (mon freshSession)) False = [(str ''X-API-Key'', Some (str ''secret''))]"
  by (simp add: requestHeaders_def fresh_prefix) (simp add: fresh_mon str_def)

lemma fresh_sent: "sent freshSession = []"
  by (simp add: freshSession_def)

lemma device_endpoint:
  "normalizeEndpoint (str ''/api/s/default/stat/device'') = str ''/api/s/default/stat/device''"
  by (simp add: normalizeEndpoint_def str_def)

lemma fresh_device_url:
  "getApiBaseUrl (mon freshSession) @ str ''/api/s/default/stat/device''
     = str ''https://192.168.1.1/proxy/network/api/s/default/stat/device''"
  by (simp add: fresh_api_base) (simp add: str_def)

lemma unreachable_throws:
  "apiRequest (Suc n) unreachableController (str ''/api/s/default/stat/device'') freshSession =
     (\<lparr> mon = (mon freshSession)\<lparr> apiPrefix := Some (str ''/proxy/network'') \<rparr>,
         sent = [HttpGet (str ''https://192.168.1.1/proxy/network/api/s/default/stat/device'')
                   [(str ''X-API-Key'', Some (str ''secret''))]] \<rparr>,
      Threw (newError (str ''Cannot connect to UniFi controller at https://192.168.1.1'')))"
proof -
  have u: "useSessionAuth (mon freshSession) \<noteq> Some True" by (simp add: fresh_mon)
  have d: "doRequest unreachableController (str ''/api/s/default/stat/device'') False freshSession =
      (\<lparr> mon = (mon freshSession)\<lparr> apiPrefix := Some (str ''/proxy/network'') \<rparr>,
          sent = [HttpGet (str ''https://192.168.1.1/proxy/network/api/s/default/stat/device'')
                   [(str ''X-API-Key'', Some (str ''secret''))]] \<rparr>,
       Inl (JsError (Some (str ''ECONNREFUSED'')) None (str ''connect ECONNREFUSED 192.168.1.1:443'')))"
    using doRequest_rejected [where srv = unreachableController and w = freshSession
        and ep = "str ''/api/s/default/stat/device''" and us = False
        and code = "str ''ECONNREFUSED''" and msg = "str ''connect ECONNREFUSED 192.168.1.1:443''"]
    unfolding fresh_headers fresh_device_url fresh_sent fresh_prefix
    by (simp add: unreachableController_def fresh_headers [unfolded fresh_prefix])
  have b: "baseUrl ((mon freshSession)\<lparr> apiPrefix := Some (str ''/proxy/network'') \<rparr>) = str ''https://192.168.1.1''"
    by (simp add: fresh_mon)
  show ?thesis
    using u by (simp add: apiRequest.simps device_endpoint firstAttempt_def d catchClause_def b) (simp add: str_def)
qed

lemma locked_stops:
  "apiRequest (Suc n) lockedController (str ''/api/s/default/stat/device'') freshSession =
     (\<lparr> mon = (mon freshSession)\<lparr> apiPrefix := Some (str ''/proxy/network''), useSessionAuth := Some True \<rparr>,
         sent = [HttpGet (str ''https://192.168.1.1/proxy/network/api/s/default/stat/device'')
                   [(str ''X-API-Key'', Some (str ''secret''))],
                 HttpPost (str ''https://192.168.1.1/api/auth/login'') (str ''api'') (str ''secret'')] \<rparr>,
      Threw (newError (str ''UniFi authentication error: UniFi API key authentication failed'')))"
proof -
  have u: "useSessionAuth (mon freshSession) \<noteq> Some True" by (simp add: fresh_mon)
  let ?w1 = "\<lparr> mon = (mon freshSession)\<lparr> apiPrefix := Some (str ''/proxy/network'') \<rparr>,
          sent = [HttpGet (str ''https://192.168.1.1/proxy/network/api/s/default/stat/device'')
                   [(str ''X-API-Key'', Some (str ''secret''))]] \<rparr>"
  have d: "doRequest lockedController (str ''/api/s/default/stat/device'') False freshSession =
      (?w1, Inr (plainResponse 401 None))"
    using doRequest_resolved [where srv = lockedController and w = freshSession
        and ep = "str ''/api/s/default/stat/device''" and us = False and res = "plainResponse 401 None"]
    unfolding fresh_headers fresh_device_url fresh_sent fresh_prefix
    by (simp add: lockedController_def plainResponse_def fresh_headers [unfolded fresh_prefix])
  have c: "getCleanBaseUrl ((mon freshSession)\<lparr> apiPrefix := Some (str ''/proxy/network''), useSessionAuth := Some True \<rparr>)
           = str ''https://192.168.1.1''"
    using fresh_clean by (simp add: getCleanBaseUrl_def)
  have k: "baseUrl (mon freshSession) \<noteq> []" "apiKey (mon freshSession) = str ''secret''" "str ''secret'' \<noteq> []"
    by (simp_all add: fresh_mon str_def)
  have l: "authenticate lockedController
      \<lparr> mon = (mon freshSession)\<lparr> apiPrefix := Some (str ''/proxy/network''), useSessionAuth := Some True \<rparr>,
          sent = [HttpGet (str ''https://192.168.1.1/proxy/network/api/s/default/stat/device'')
                   [(str ''X-API-Key'', Some (str ''secret''))]] \<rparr> =
      (\<lparr> mon = (mon freshSession)\<lparr> apiPrefix := Some (str ''/proxy/network''), useSessionAuth := Some True \<rparr>,
          sent = [HttpGet (str ''https://192.168.1.1/proxy/network/api/s/default/stat/device'')
                   [(str ''X-API-Key'', Some (str ''secret''))],
                  HttpPost (str ''https://192.168.1.1/api/auth/login'') (str ''api'') (str ''secret'')] \<rparr>,
       Inl (newError (str ''UniFi authentication error: UniFi API key authentication failed'')))"
    using k by (simp add: authenticate_def c axios_def lockedController_def plainResponse_def authFailure_def
          newError_def Let_def) (simp add: str_def)
  show ?thesis
    using u by (simp add: apiRequest.simps device_endpoint firstAttempt_def d l catchClause_def newError_def unauthorized_def plainResponse_def)
qed

subsection \<open>The claims\<close>

text \<open>
  C1. The unwrap rule of \<^verbatim>\<open>apiRequest\<close> returns the value of the \<^verbatim>\<open>data\<close> field
  when the response is an object carrying one, the response itself when it is an array,
  a one-element array holding the response when it is an object without a \<^verbatim>\<open>data\<close>
  field, and the empty array when the response is null or undefined (or any other
  primitive).
\<close>

theorem apiRequest_unwrap_rule:
  "(map_of kvs (str ''data'') = Some x \<longrightarrow> unwrapPayload (Some (JObj kvs)) = x) \<and>
   unwrapPayload (Some (JArr xs)) = JArr xs \<and>
   (map_of kvs (str ''data'') = None \<longrightarrow> unwrapPayload (Some (JObj kvs)) = JArr [JObj kvs]) \<and>
   unwrapPayload (Some JNull) = JArr [] \<and>
   unwrapPayload None = JArr [] \<and>
   unwrapPayload (Some (JBool b)) = JArr [] \<and>
   unwrapPayload (Some (JNum n)) = JArr [] \<and>
   unwrapPayload (Some (JStr s)) = JArr []"
  by (simp add: unwrapPayload_def)

theorem apiRequest_unwrap_rule_witness:
  "unwrapPayload (Some (JObj [(str ''meta'', JObj [(str ''rc'', JStr (str ''ok''))]),
                              (str ''data'', JArr [JNum 7])])) = JArr [JNum 7] \<and>
   unwrapPayload (Some (JObj [(str ''data'', JObj [(str ''name'', JStr (str ''gw''))])]))
     = JObj [(str ''name'', JStr (str ''gw''))] \<and>
   unwrapPayload (Some (JObj [(str ''data'', JNull)])) = JNull \<and>
   unwrapPayload (Some (JObj [(str ''name'', JStr (str ''gw''))]))
     = JArr [JObj [(str ''name'', JStr (str ''gw''))]] \<and>
   unwrapPayload (Some (JArr [JNum 1, JNum 2])) = JArr [JNum 1, JNum 2]"
  using apiRequest_unwrap_rule [of "[(str ''meta'', JObj [(str ''rc'', JStr (str ''ok''))]), (str ''data'', JArr [JNum 7])]"
                                   "JArr [JNum 7]" "[JNum 1, JNum 2]"]
        apiRequest_unwrap_rule [of "[(str ''data'', JObj [(str ''name'', JStr (str ''gw''))])]"
                                   "JObj [(str ''name'', JStr (str ''gw''))]"]
        apiRequest_unwrap_rule [of "[(str ''data'', JNull)]" JNull]
        apiRequest_unwrap_rule [of "[(str ''name'', JStr (str ''gw''))]"]
  by (simp add: str_def)

text \<open>
  C3 (as the code has it). Cloud client: a device list in which no device carries any
  status-like field has an online count equal to the list length. In both clients a
  device that shows nothing but offline (every status-like field it carries holds
  \<^verbatim>\<open>false\<close>, \<^verbatim>\<open>0\<close>, \<^verbatim>\<open>'0'\<close>, \<^verbatim>\<open>'offline'\<close> or \<^verbatim>\<open>'disconnected'\<close> in any letter case,
  and one of \<^verbatim>\<open>state\<close>, \<^verbatim>\<open>status\<close>, \<^verbatim>\<open>connectionState\<close>, \<^verbatim>\<open>connected\<close>,
  \<^verbatim>\<open>isOnline\<close> is among them) is left out of the online count whatever its siblings
  carry: \<^verbatim>\<open>_deviceIsOnline\<close> rejects it, the online count of the list is the count of its
  siblings that are accepted, and so is below the list length. (The runtime reads none of
  the offline words as the number 1.) Local-controller client: the online count is the
  number of devices whose \<^verbatim>\<open>state\<close> is the number 1; there is no leniency for devices
  without status fields.
\<close>

theorem device_online_policy:
  "((\<forall>d\<in>set ds. noStatusFields d) \<longrightarrow> cloudOnline toNum ds = Inr (length ds)) \<and>
   ((\<forall>d\<in>set ds. noStatusFields d) \<and> cloudHealthMetrics toNum ss ds cs = Inr m \<longrightarrow>
      dev_online (m_devices m) = int (length ds)) \<and>
   (offlineOnly d \<and> (\<forall>s. toLowerCase s \<in> set offlineWords \<longrightarrow> toNum s \<noteq> Some 1) \<longrightarrow>
      deviceIsOnline toNum d = Inr False \<and>
      (cloudOnline toNum (xs @ d # ys) = Inr n \<longrightarrow>
         n = length (filter (\<lambda>x. deviceIsOnline toNum x = Inr True) (xs @ ys)) \<and>
         n < length (xs @ d # ys))) \<and>
   (offlineOnly d \<and> localHealthMetrics (xs @ d # ys) cs = Inr m' \<longrightarrow>
      dev_online (m_devices m')
        = int (length (filter (\<lambda>x. jget x (str ''state'') = Some (JNum 1)) (xs @ ys))) \<and>
      dev_online (m_devices m') < int (length (xs @ d # ys))) \<and>
   (localHealthMetrics ds cs = Inr m'' \<longrightarrow>
      dev_online (m_devices m'') = int (length (filter (\<lambda>x. jget x (str ''state'') = Some (JNum 1)) ds)))"
proof (intro conjI impI)
  assume "\<forall>d\<in>set ds. noStatusFields d"
  then show "cloudOnline toNum ds = Inr (length ds)" by (rule cloud_lenient)
next
  assume a: "(\<forall>d\<in>set ds. noStatusFields d) \<and> cloudHealthMetrics toNum ss ds cs = Inr m"
  then have "cloudOnline toNum ds = Inr (length ds)" by (simp add: cloud_lenient)
  with cloud_devices [OF conjunct2 [OF a]] show "dev_online (m_devices m) = int (length ds)"
    by auto
next
  assume "offlineOnly d \<and> (\<forall>s. toLowerCase s \<in> set offlineWords \<longrightarrow> toNum s \<noteq> Some 1)"
  then show "deviceIsOnline toNum d = Inr False" by (simp add: offlineOnly_not_online)
next
  assume a: "offlineOnly d \<and> (\<forall>s. toLowerCase s \<in> set offlineWords \<longrightarrow> toNum s \<noteq> Some 1)"
    and c: "cloudOnline toNum (xs @ d # ys) = Inr n"
  show "n = length (filter (\<lambda>x. deviceIsOnline toNum x = Inr True) (xs @ ys))"
    by (rule cloud_excludes [OF conjunct1 [OF a] conjunct2 [OF a] c])
next
  assume a: "offlineOnly d \<and> (\<forall>s. toLowerCase s \<in> set offlineWords \<longrightarrow> toNum s \<noteq> Some 1)"
    and c: "cloudOnline toNum (xs @ d # ys) = Inr n"
  have "n = length (filter (\<lambda>x. deviceIsOnline toNum x = Inr True) (xs @ ys))"
    by (rule cloud_excludes [OF conjunct1 [OF a] conjunct2 [OF a] c])
  also have "\<dots> \<le> length (xs @ ys)" by (rule length_filter_le)
  finally show "n < length (xs @ d # ys)" by simp
next
  assume a: "offlineOnly d \<and> localHealthMetrics (xs @ d # ys) cs = Inr m'"
  show "dev_online (m_devices m')
      = int (length (filter (\<lambda>x. jget x (str ''state'') = Some (JNum 1)) (xs @ ys)))"
    by (rule local_excludes [OF conjunct1 [OF a] conjunct2 [OF a]])
next
  assume a: "offlineOnly d \<and> localHealthMetrics (xs @ d # ys) cs = Inr m'"
  have "dev_online (m_devices m')
      = int (length (filter (\<lambda>x. jget x (str ''state'') = Some (JNum 1)) (xs @ ys)))"
    by (rule local_excludes [OF conjunct1 [OF a] conjunct2 [OF a]])
  also have "\<dots> \<le> int (length (xs @ ys))" by (simp only: of_nat_le_iff length_filter_le)
  finally show "dev_online (m_devices m') < int (length (xs @ d # ys))" by simp
next
  assume "localHealthMetrics ds cs = Inr m''"
  then show "dev_online (m_devices m'') = int (length (filter (\<lambda>x. jget x (str ''state'') = Some (JNum 1)) ds))"
    by (rule local_strict)
qed

theorem device_online_policy_witness:
  "cloudOnline nanOnStrings [devPlainA, devPlainB] = Inr 2 \<and>
   cloudHealthMetrics nanOnStrings [] [devPlainA, devPlainB] [] = Inr \<lparr> m_sites = Some 0,
     m_devices = \<lparr> dev_total = 2, dev_online = 2, dev_offline = 0 \<rparr>,
     m_clients = \<lparr> cl_total = 0, cl_wireless = 0, cl_wired = 0 \<rparr>,
     m_devicesList = [devPlainA, devPlainB], m_clientsList = [] \<rparr> \<and>
   offlineOnly devDown \<and>
   deviceIsOnline nanOnStrings devDown = Inr False \<and>
   cloudOnline nanOnStrings ([devOn, devPlainA] @ devDown # [devOff]) = Inr 1 \<and>
   localHealthMetrics ([devOn, devPlainA] @ devDown # [devOff]) [] = Inr \<lparr> m_sites = None,
     m_devices = \<lparr> dev_total = 4, dev_online = 1, dev_offline = 3 \<rparr>,
     m_clients = \<lparr> cl_total = 0, cl_wireless = 0, cl_wired = 0 \<rparr>,
     m_devicesList = [devOn, devPlainA, devDown, devOff], m_clientsList = [] \<rparr> \<and>
   localHealthMetrics [devPlainA, devPlainB] [] = Inr \<lparr> m_sites = None,
     m_devices = \<lparr> dev_total = 2, dev_online = 0, dev_offline = 2 \<rparr>,
     m_clients = \<lparr> cl_total = 0, cl_wireless = 0, cl_wired = 0 \<rparr>,
     m_devicesList = [devPlainA, devPlainB], m_clientsList = [] \<rparr>"
proof -
  have rt: "\<forall>s. toLowerCase s \<in> set offlineWords \<longrightarrow> nanOnStrings s \<noteq> Some 1"
    by (simp add: nanOnStrings_def)
  have c: "cloudOnline nanOnStrings ([devOn, devPlainA] @ devDown # [devOff]) = Inr 1"
    by (simp add: cloudOnline_def dev_online_eval dev_carries_eval)
  have h: "cloudHealthMetrics nanOnStrings [] [devPlainA, devPlainB] [] = Inr \<lparr> m_sites = Some 0,
     m_devices = \<lparr> dev_total = 2, dev_online = 2, dev_offline = 0 \<rparr>,
     m_clients = \<lparr> cl_total = 0, cl_wireless = 0, cl_wired = 0 \<rparr>,
     m_devicesList = [devPlainA, devPlainB], m_clientsList = [] \<rparr>"
    by (simp add: cloudHealthMetrics_def cloudOnline_def dev_online_eval dev_carries_eval dev_valid_eval)
  have l: "localHealthMetrics ([devOn, devPlainA] @ devDown # [devOff]) [] = Inr \<lparr> m_sites = None,
     m_devices = \<lparr> dev_total = 4, dev_online = 1, dev_offline = 3 \<rparr>,
     m_clients = \<lparr> cl_total = 0, cl_wireless = 0, cl_wired = 0 \<rparr>,
     m_devicesList = [devOn, devPlainA, devDown, devOff], m_clientsList = [] \<rparr>"
    by (simp add: localHealthMetrics_def localCounts_def dev_state_eval dev_type_eval dev_valid_eval)
  have p: "localHealthMetrics [devPlainA, devPlainB] [] = Inr \<lparr> m_sites = None,
     m_devices = \<lparr> dev_total = 2, dev_online = 0, dev_offline = 2 \<rparr>,
     m_clients = \<lparr> cl_total = 0, cl_wireless = 0, cl_wired = 0 \<rparr>,
     m_devicesList = [devPlainA, devPlainB], m_clientsList = [] \<rparr>"
    by (simp add: localHealthMetrics_def localCounts_def dev_state_eval dev_type_eval dev_valid_eval)
  show ?thesis
    using device_online_policy [where ds = "[devPlainA, devPlainB]" and toNum = nanOnStrings and ss = "[]"
            and cs = "[]" and d = devDown and xs = "[devOn, devPlainA]" and ys = "[devOff]" and n = 1
            and m = "\<lparr> m_sites = Some 0,
                     m_devices = \<lparr> dev_total = 2, dev_online = 2, dev_offline = 0 \<rparr>,
                     m_clients = \<lparr> cl_total = 0, cl_wireless = 0, cl_wired = 0 \<rparr>,
                     m_devicesList = [devPlainA, devPlainB], m_clientsList = [] \<rparr>"
            and m' = "\<lparr> m_sites = None,
                     m_devices = \<lparr> dev_total = 4, dev_online = 1, dev_offline = 3 \<rparr>,
                     m_clients = \<lparr> cl_total = 0, cl_wireless = 0, cl_wired = 0 \<rparr>,
                     m_devicesList = [devOn, devPlainA, devDown, devOff], m_clientsList = [] \<rparr>"
            and m'' = "\<lparr> m_sites = None,
                     m_devices = \<lparr> dev_total = 2, dev_online = 0, dev_offline = 2 \<rparr>,
                     m_clients = \<lparr> cl_total = 0, cl_wireless = 0, cl_wired = 0 \<rparr>,
                     m_devicesList = [devPlainA, devPlainB], m_clientsList = [] \<rparr>"]
          dev_no_status dev_down_offline rt c h l p
    by simp
qed

text \<open>
  C3 as stated fails. The local-controller client counts two devices without any status
  field as offline (online count 0, not 2); in the cloud client two such devices that have
  an explicitly offline sibling are not counted online either; and a device whose state
  says offline while its \<^verbatim>\<open>connected\<close> flag says online is counted online by the cloud
  client, where one field that says online is enough.
\<close>

theorem device_leniency_counterexample:
  "list_all noStatusFields [devPlainA, devPlainB] \<and>
   localHealthMetrics [devPlainA, devPlainB] [] = Inr \<lparr> m_sites = None,
     m_devices = \<lparr> dev_total = 2, dev_online = 0, dev_offline = 2 \<rparr>,
     m_clients = \<lparr> cl_total = 0, cl_wireless = 0, cl_wired = 0 \<rparr>,
     m_devicesList = [devPlainA, devPlainB], m_clientsList = [] \<rparr> \<and>
   cloudOnline nanOnStrings [devPlainA, devPlainB, devOff] = Inr 0 \<and>
   jget devMixed (str ''state'') = Some (JStr (str ''offline'')) \<and>
   deviceIsOnline nanOnStrings devMixed = Inr True \<and>
   cloudOnline nanOnStrings [devMixed, devOff] = Inr 1"
proof -
  have s: "jget devMixed (str ''state'') = Some (JStr (str ''offline''))"
    by (simp add: devMixed_def str_def)
  show ?thesis
    by (simp add: s dev_no_status cloudOnline_def localHealthMetrics_def localCounts_def
        dev_online_eval dev_carries_eval dev_state_eval dev_type_eval dev_valid_eval)
qed

text \<open>
  C10. In every health-metrics result of the local-controller client and of the cloud
  client, and in the fleet-wide summary, \<^verbatim>\<open>devices.offline\<close> is
  \<^verbatim>\<open>devices.total - devices.online\<close>; in the two clients it is never negative.
\<close>

theorem offline_is_total_minus_online:
  "(localHealthMetrics ds cs = Inr m \<longrightarrow>
      dev_offline (m_devices m) = dev_total (m_devices m) - dev_online (m_devices m) \<and>
      0 \<le> dev_offline (m_devices m)) \<and>
   (cloudHealthMetrics toNum ss ds' cs' = Inr m' \<longrightarrow>
      dev_offline (m_devices m') = dev_total (m_devices m') - dev_online (m_devices m') \<and>
      0 \<le> dev_offline (m_devices m')) \<and>
   (summarize rs = Some s \<longrightarrow>
      dev_offline (s_devices s) = dev_total (s_devices s) - dev_online (s_devices s))"
proof (intro conjI impI)
  assume "localHealthMetrics ds cs = Inr m"
  from local_devices [OF this] obtain n where n: "countM (propIs (str ''state'') (JNum 1)) ds = Inr n"
    "m_devices m = \<lparr> dev_total = int (length ds), dev_online = int n, dev_offline = int (length ds) - int n \<rparr>"
    by blast
  show "dev_offline (m_devices m) = dev_total (m_devices m) - dev_online (m_devices m)"
    by (simp add: n(2))
  show "0 \<le> dev_offline (m_devices m)"
    using countM_le [OF n(1)] by (simp add: n(2))
next
  assume "cloudHealthMetrics toNum ss ds' cs' = Inr m'"
  from cloud_devices [OF this] obtain n where n: "cloudOnline toNum ds' = Inr n"
    "m_devices m' = \<lparr> dev_total = int (length ds'), dev_online = int n, dev_offline = int (length ds') - int n \<rparr>"
    by blast
  show "dev_offline (m_devices m') = dev_total (m_devices m') - dev_online (m_devices m')"
    by (simp add: n(2))
  show "0 \<le> dev_offline (m_devices m')"
    using cloudOnline_le [OF n(1)] by (simp add: n(2))
next
  assume "summarize rs = Some s"
  then show "dev_offline (s_devices s) = dev_total (s_devices s) - dev_online (s_devices s)"
    by (auto simp: summarize_def Let_def split: if_splits)
qed

theorem offline_is_total_minus_online_witness:
  "localHealthMetrics [devOn, devOn, devOff] [] = Inr \<lparr> m_sites = None,
     m_devices = \<lparr> dev_total = 3, dev_online = 2, dev_offline = 1 \<rparr>,
     m_clients = \<lparr> cl_total = 0, cl_wireless = 0, cl_wired = 0 \<rparr>,
     m_devicesList = [devOn, devOn, devOff], m_clientsList = [] \<rparr> \<and>
   cloudHealthMetrics nanOnStrings [] [devOn, devOff] [] = Inr \<lparr> m_sites = Some 0,
     m_devices = \<lparr> dev_total = 2, dev_online = 1, dev_offline = 1 \<rparr>,
     m_clients = \<lparr> cl_total = 0, cl_wireless = 0, cl_wired = 0 \<rparr>,
     m_devicesList = [devOn, devOff], m_clientsList = [] \<rparr> \<and>
   summarize [aggregateController (str ''home'') (localHealthMetrics [devOn, devOn, devOff] []),
              aggregateController (str ''lab'') (Inl (newError (str ''boom'')))]
     = Some \<lparr> s_controllers_total = 2, s_controllers_online = 1, s_controllers_offline = 1,
              s_devices = \<lparr> dev_total = 3, dev_online = 2, dev_offline = 1 \<rparr>,
              s_clients = \<lparr> cl_total = 0, cl_wireless = 0, cl_wired = 0 \<rparr> \<rparr>"
  using offline_is_total_minus_online
          [of "[devOn, devOn, devOff]" "[]"
              "\<lparr> m_sites = None,
                 m_devices = \<lparr> dev_total = 3, dev_online = 2, dev_offline = 1 \<rparr>,
                 m_clients = \<lparr> cl_total = 0, cl_wireless = 0, cl_wired = 0 \<rparr>,
                 m_devicesList = [devOn, devOn, devOff], m_clientsList = [] \<rparr>"
              nanOnStrings "[]" "[devOn, devOff]" "[]"
              "\<lparr> m_sites = Some 0,
                 m_devices = \<lparr> dev_total = 2, dev_online = 1, dev_offline = 1 \<rparr>,
                 m_clients = \<lparr> cl_total = 0, cl_wireless = 0, cl_wired = 0 \<rparr>,
                 m_devicesList = [devOn, devOff], m_clientsList = [] \<rparr>"]
  by (simp add: localHealthMetrics_def localCounts_def cloudHealthMetrics_def cloudOnline_def
        summarize_def aggregateController_def metricOr0_def
        dev_online_eval dev_carries_eval dev_state_eval dev_type_eval dev_valid_eval)

text \<open>
  C4 (what the code does). \<^verbatim>\<open>getDevices\<close> and \<^verbatim>\<open>getClients\<close> rethrow the error of
  their request, and the aggregator turns an error of \<^verbatim>\<open>getHealthMetrics\<close> into
  \<^verbatim>\<open>success: false\<close> with the message. But \<^verbatim>\<open>getSystemInfo\<close> and
  \<^verbatim>\<open>getHealthMetrics\<close> catch the errors of their own requests: when every request
  fails they return an empty system record and all-zero counts, so \<^verbatim>\<open>testConnection\<close>
  reports a connection and the aggregator reports \<^verbatim>\<open>success: true\<close>. The
  supplementary fetchers return empty results.
\<close>

theorem unreachable_controller_reported_reachable:
  "getDevices (Inl e1) = Inl (newError (str ''Failed to get UniFi devices: '' @ errMessage e1)) \<and>
   getClients (Inl e2) = Inl (newError (str ''Failed to get UniFi clients: '' @ errMessage e2)) \<and>
   getSystemInfo (Inl e3) (Inl e4) = Inr \<lparr> si_system = JObj [], si_sites = JArr [] \<rparr> \<and>
   ct_success (testConnection (Inl e3) (Inl e4)) = True \<and>
   getHealthMetrics (Inl e1) (Inl e2) (Inl e3) (Inl e4) =
     Inr \<lparr> m_sites = None,
           m_devices = \<lparr> dev_total = 0, dev_online = 0, dev_offline = 0 \<rparr>,
           m_clients = \<lparr> cl_total = 0, cl_wireless = 0, cl_wired = 0 \<rparr>,
           m_devicesList = [], m_clientsList = [] \<rparr> \<and>
   cr_success (aggregateController name (getHealthMetrics (Inl e1) (Inl e2) (Inl e3) (Inl e4))) = True \<and>
   cr_error (aggregateController name (getHealthMetrics (Inl e1) (Inl e2) (Inl e3) (Inl e4))) = None \<and>
   aggregateController name (Inl e) =
     \<lparr> cr_name = name, cr_success = False, cr_metrics = None, cr_error = Some (errMessage e) \<rparr> \<and>
   getNetworks (Inl e) = [] \<and> getWlans (Inl e) = [] \<and> getPortProfiles (Inl e) = [] \<and>
   getPortForwards (Inl e) = [] \<and> getRouting (Inl e) = [] \<and> getAlarms limit (Inl e) = [] \<and>
   getSiteHealth (Inl e) = JObj [] \<and> getIntrusionEvents limit [Inl e1, Inl e2, Inl e3, Inl e4] = []"
  by (simp add: getDevices_def getClients_def getSystemInfo_def testConnection_def getHealthMetrics_def
        orEmptyList_def localHealthMetrics_def localCounts_def aggregateController_def jsOr_def
        getNetworks_def getWlans_def getPortProfiles_def getPortForwards_def getRouting_def
        listFetcher_def getAlarms_def getSiteHealth_def)

subsection \<open>Diagnostics\<close>

lemma hostChar_set:
  "isHostChar c \<longleftrightarrow> c \<in> set (str ''abcdefghijklmnopqrstuvwxyzABCDEFGHIJKLMNOPQRSTUVWXYZ0123456789.-_:[]'')"
  unfolding isHostChar_def str_def by simp arith

lemma sanitize_None_iff:
  "sanitizeHost (Some s) = None \<longleftrightarrow>
     trim s = [] \<or> length (trim s) > 253 \<or>
     (\<exists>c\<in>set (trim s). c \<notin> set (str ''abcdefghijklmnopqrstuvwxyzABCDEFGHIJKLMNOPQRSTUVWXYZ0123456789.-_:[]''))"
  by (auto simp: sanitizeHost_def Let_def list_all_iff hostChar_set)

lemma sanitize_Some:
  "sanitizeHost h = Some t \<Longrightarrow>
     \<exists>i. h = Some i \<and> t = trim i \<and> t \<noteq> [] \<and> length t \<le> 253 \<and>
         set t \<subseteq> set (str ''abcdefghijklmnopqrstuvwxyzABCDEFGHIJKLMNOPQRSTUVWXYZ0123456789.-_:[]'')"
  by (cases h) (auto simp: sanitizeHost_def Let_def list_all_iff hostChar_set split: if_splits)

text \<open>
  C6. When the trimmed input is empty, longer than 253 code units or holds a character
  outside \<^verbatim>\<open>A-Za-z0-9.-_:[]\<close>, \<^verbatim>\<open>runPing\<close>, \<^verbatim>\<open>runTraceroute\<close> and \<^verbatim>\<open>testPort\<close>
  return the error result and spawn no subprocess and open no connection. Conversely,
  whenever one of them spawns a command or opens a connection, the host was accepted by the
  sanitization, and the command or connection is the one built from the trimmed host.
\<close>

theorem invalid_host_never_reaches_a_command:
  "(trim s = [] \<or> length (trim s) > 253 \<or>
    (\<exists>c\<in>set (trim s). c \<notin> set (str ''abcdefghijklmnopqrstuvwxyzABCDEFGHIJKLMNOPQRSTUVWXYZ0123456789.-_:[]''))
    \<longrightarrow>
      runPing sys (Some s) count =
        ([], \<lparr> c_success = False, c_output = [], c_error = Some (str ''Invalid or missing host'') \<rparr>) \<and>
      runTraceroute sys (Some s) hops =
        ([], \<lparr> c_success = False, c_output = [], c_error = Some (str ''Invalid or missing host'') \<rparr>) \<and>
      testPort sys (Some s) port = ([], \<lparr> p_open = False, p_message = str ''Invalid or missing host'' \<rparr>)) \<and>
   (fst (runPing sys h count) \<noteq> [] \<or> fst (runTraceroute sys h hops) \<noteq> [] \<or> fst (testPort sys h port) \<noteq> []
    \<longrightarrow>
      (\<exists>i t. h = Some i \<and> t = trim i \<and> sanitizeHost h = Some t \<and> t \<noteq> [] \<and> length t \<le> 253 \<and>
         set t \<subseteq> set (str ''abcdefghijklmnopqrstuvwxyzABCDEFGHIJKLMNOPQRSTUVWXYZ0123456789.-_:[]'') \<and>
         set (fst (runPing sys h count))
           \<subseteq> {Spawn (pingCommand (os_win32 sys) (clampCount (parseInt10 sys count) 4 5) t)} \<and>
         set (fst (runTraceroute sys h hops))
           \<subseteq> {Spawn (tracerouteCommand (os_win32 sys) (clampCount (parseInt10 sys hops) 15 20) t)} \<and>
         set (fst (testPort sys h port)) \<subseteq> (\<lambda>p. TcpConnect p t) ` {1..65535}))"
proof (intro conjI impI)
  assume "trim s = [] \<or> length (trim s) > 253 \<or>
    (\<exists>c\<in>set (trim s). c \<notin> set (str ''abcdefghijklmnopqrstuvwxyzABCDEFGHIJKLMNOPQRSTUVWXYZ0123456789.-_:[]''))"
  then have n: "sanitizeHost (Some s) = None" by (simp only: sanitize_None_iff)
  show "runPing sys (Some s) count =
        ([], \<lparr> c_success = False, c_output = [], c_error = Some (str ''Invalid or missing host'') \<rparr>)"
    by (simp add: runPing_def n invalidHost_def)
  show "runTraceroute sys (Some s) hops =
        ([], \<lparr> c_success = False, c_output = [], c_error = Some (str ''Invalid or missing host'') \<rparr>)"
    by (simp add: runTraceroute_def n invalidHost_def)
  show "testPort sys (Some s) port = ([], \<lparr> p_open = False, p_message = str ''Invalid or missing host'' \<rparr>)"
    by (simp add: testPort_def n)
next
  assume a: "fst (runPing sys h count) \<noteq> [] \<or> fst (runTraceroute sys h hops) \<noteq> [] \<or> fst (testPort sys h port) \<noteq> []"
  then obtain t where t: "sanitizeHost h = Some t"
    by (cases "sanitizeHost h") (auto simp: runPing_def runTraceroute_def testPort_def)
  from sanitize_Some [OF t] obtain i where i: "h = Some i" "t = trim i" "t \<noteq> []" "length t \<le> 253"
    "set t \<subseteq> set (str ''abcdefghijklmnopqrstuvwxyzABCDEFGHIJKLMNOPQRSTUVWXYZ0123456789.-_:[]'')"
    by blast
  have p: "set (fst (testPort sys h port)) \<subseteq> (\<lambda>p. TcpConnect p t) ` {1..65535}"
    by (cases "parseInt10 sys port") (auto simp: testPort_def t image_iff intro!: bexI [where x = "nat _"])
  show "\<exists>i t. h = Some i \<and> t = trim i \<and> sanitizeHost h = Some t \<and> t \<noteq> [] \<and> length t \<le> 253 \<and>
         set t \<subseteq> set (str ''abcdefghijklmnopqrstuvwxyzABCDEFGHIJKLMNOPQRSTUVWXYZ0123456789.-_:[]'') \<and>
         set (fst (runPing sys h count))
           \<subseteq> {Spawn (pingCommand (os_win32 sys) (clampCount (parseInt10 sys count) 4 5) t)} \<and>
         set (fst (runTraceroute sys h hops))
           \<subseteq> {Spawn (tracerouteCommand (os_win32 sys) (clampCount (parseInt10 sys hops) 15 20) t)} \<and>
         set (fst (testPort sys h port)) \<subseteq> (\<lambda>p. TcpConnect p t) ` {1..65535}"
    using i t p by (intro exI [where x = i] exI [where x = t]) (simp add: runPing_def runTraceroute_def Let_def)
qed

text \<open>
  A count from \<open>2^53\<close> on is read back from its print: when the print is
  \<^verbatim>\<open>1e+21\<close>, of which \<^verbatim>\<open>parseInt\<close> reads 1, a single ping is spawned, and when it
  is \<^verbatim>\<open>Infinity\<close>, which is read as NaN, the default four.
\<close>

lemma count_read_from_print:
  assumes "sanitizeHost host = Some t" and "2 ^ 53 \<le> n"
  shows "os_parseInt sys n = Some 1 \<Longrightarrow>
           fst (runPing sys host (Some n)) = [Spawn (pingCommand (os_win32 sys) 1 t)]"
    and "os_parseInt sys n = None \<Longrightarrow>
           fst (runPing sys host (Some n)) = [Spawn (pingCommand (os_win32 sys) 4 t)]"
  using assms by (simp_all add: runPing_def parseInt10_def clampCount_def Let_def)

lemma trim_injection: "trim (str ''8.8.8.8; rm -rf /'') = str ''8.8.8.8; rm -rf /''"
  by (simp add: trim_def isWhiteSpace_def str_def)

lemma trim_example: "trim (str '' example.com '') = str ''example.com''"
  by (simp add: trim_def isWhiteSpace_def str_def)

lemma sanitize_example: "sanitizeHost (Some (str '' example.com '')) = Some (str ''example.com'')"
  by (simp add: sanitizeHost_def trim_example Let_def) (simp add: str_def isHostChar_def)

theorem invalid_host_never_reaches_a_command_witness:
  "runPing quietOs (Some (str ''8.8.8.8; rm -rf /'')) (Some 4) =
     ([], \<lparr> c_success = False, c_output = [], c_error = Some (str ''Invalid or missing host'') \<rparr>) \<and>
   runTraceroute quietOs (Some (str ''8.8.8.8; rm -rf /'')) (Some 15) =
     ([], \<lparr> c_success = False, c_output = [], c_error = Some (str ''Invalid or missing host'') \<rparr>) \<and>
   testPort quietOs (Some (str ''8.8.8.8; rm -rf /'')) (Some 443) =
     ([], \<lparr> p_open = False, p_message = str ''Invalid or missing host'' \<rparr>) \<and>
   runPing quietOs (Some []) None =
     ([], \<lparr> c_success = False, c_output = [], c_error = Some (str ''Invalid or missing host'') \<rparr>) \<and>
   fst (runPing quietOs (Some (str '' example.com '')) (Some 9)) = [Spawn (str ''ping -c 5 -W 3 example.com'')]"
proof -
  have bad: "59 \<in> set (trim (str ''8.8.8.8; rm -rf /'')) \<and>
             59 \<notin> set (str ''abcdefghijklmnopqrstuvwxyzABCDEFGHIJKLMNOPQRSTUVWXYZ0123456789.-_:[]'')"
    by (simp add: trim_injection) (simp add: str_def)
  have empty: "trim [] = []" by (simp add: trim_def)
  have ok: "fst (runPing quietOs (Some (str '' example.com '')) (Some 9)) = [Spawn (str ''ping -c 5 -W 3 example.com'')]"
    by (simp add: runPing_def sanitize_example quietOs_def pingCommand_def clampCount_def parseInt10_def
          showInt_def showNat.simps Let_def)
       (simp add: str_def)
  show ?thesis
    using invalid_host_never_reaches_a_command [of "str ''8.8.8.8; rm -rf /''" quietOs "Some 4" "Some 15" "Some 443"]
          invalid_host_never_reaches_a_command [of "[]" quietOs None]
          bad empty ok
    by blast
qed

subsection \<open>Intent detection and the diagnostics of the context formatter\<close>








































subsection \<open>List sections of the context\<close>





lemma lineBreaks_append [simp]: "lineBreaks (a @ b) = lineBreaks a + lineBreaks b"
  by (simp add: lineBreaks_def)

lemma lineBreaks_Cons [simp]: "lineBreaks (c # s) = (if c = 10 then 1 else 0) + lineBreaks s"
  by (simp add: lineBreaks_def)

lemma lineBreaks_Nil [simp]: "lineBreaks [] = 0"
  by (simp add: lineBreaks_def)





















subsection \<open>The server\<close>

text \<open>
  C9 (what the code does). \<^verbatim>\<open>utils/monitoring.js\<close> exports no
  \<^verbatim>\<open>invalidateMonitoringCache\<close>: the name the server imports is undefined, and both
  handlers that call it answer 500 with the TypeError's message (a \<^verbatim>\<open>PUT /api/config\<close>
  that does not touch the monitoring settings is not affected).
\<close>

theorem invalidate_hook_not_exported:
  "str ''invalidateMonitoringCache'' \<notin> set monitoringExports \<and>
   putConfig True = \<lparr> a_status = 500, a_error = Some (str ''invalidateMonitoringCache is not a function'') \<rparr> \<and>
   postConfigReload = \<lparr> a_status = 500, a_error = Some (str ''invalidateMonitoringCache is not a function'') \<rparr> \<and>
   putConfig False = \<lparr> a_status = 200, a_error = None \<rparr>"
  by (simp add: putConfig_def postConfigReload_def callImported_def monitoringExports_def typeError_def str_def)

end
